(* ===== verification/Prelude.thy ===== *)
theory Prelude
  imports Main "HOL-Library.Word" "HOL-Library.Sublist"
begin

text \<open>
  Shared vocabulary of the development: bytes, the error type every handler returns
  (Rust's boxed \<open>lambda_runtime::Error\<close>, one constructor per concrete error type the
  handlers convert with \<open>?\<close>, and panics), and a small result-and-state monad
  \<open>('s, 'e, 'a) act\<close> that models an \<open>async fn\<close> returning \<open>Result\<close> and mutating the
  outside world: \<open>bind_act\<close> is Rust's \<open>?\<close> followed by the rest of the body.
\<close>

type_synonym byte = "8 word"
type_synonym bytes = "byte list"

datatype error =
    Panic string                     \<comment> \<open>\<open>expect(msg)\<close> on \<open>None\<close> or \<open>Err\<close>: the handler panics\<close>
  | StrError string                  \<comment> \<open>\<open>Err("...".into())\<close>: a boxed string error\<close>
  | GetObjectError string            \<comment> \<open>\<open>SdkError<GetObjectError>\<close>\<close>
  | ByteStreamError string           \<comment> \<open>\<open>aws_smithy_types::byte_stream::error::Error\<close>\<close>
  | BuildError string                \<comment> \<open>\<open>aws_smithy_types::error::operation::BuildError\<close>\<close>
  | ConverseError string             \<comment> \<open>\<open>SdkError<ConverseError>\<close>\<close>
  | SendMessageError string          \<comment> \<open>\<open>SdkError<SendMessageError>\<close>\<close>
  | GetRawMessageContentError string \<comment> \<open>\<open>SdkError<GetRawMessageContentError>\<close>\<close>
  | MailParseError string            \<comment> \<open>\<open>mailparse::MailParseError\<close>\<close>
  | PutObjectError string            \<comment> \<open>\<open>SdkError<PutObjectError>\<close>\<close>
  | JsonError string                 \<comment> \<open>\<open>serde_json::Error\<close>\<close>
  | ReqwestError string              \<comment> \<open>\<open>reqwest::Error\<close>\<close>

named_theorems act_simps "unfolding the result-and-state monad at a state"
named_theorems frame_simps "what an operation leaves unchanged"

subsection \<open>The result-and-state monad\<close>

type_synonym ('s, 'e, 'a) act = "'s \<Rightarrow> ('e + 'a) \<times> 's"

definition ret :: "'a \<Rightarrow> ('s, 'e, 'a) act" where
  "ret a = (\<lambda>s. (Inr a, s))"

definition throw :: "'e \<Rightarrow> ('s, 'e, 'a) act" where
  "throw e = (\<lambda>s. (Inl e, s))"

text \<open>\<open>lift r\<close> is \<open>r?\<close> for a \<open>Result\<close> computed without effects.\<close>

definition lift :: "'e + 'a \<Rightarrow> ('s, 'e, 'a) act" where
  "lift r = (\<lambda>s. (r, s))"

definition bind_act :: "('s, 'e, 'a) act \<Rightarrow> ('a \<Rightarrow> ('s, 'e, 'b) act) \<Rightarrow> ('s, 'e, 'b) act" where
  "bind_act m f = (\<lambda>s. case m s of (Inl e, s') \<Rightarrow> (Inl e, s') | (Inr a, s') \<Rightarrow> f a s')"

lemma ret_apply [act_simps]: "ret a s = (Inr a, s)"
  by (simp add: ret_def)

lemma throw_apply [act_simps]: "throw e s = (Inl e, s)"
  by (simp add: throw_def)

lemma lift_apply [act_simps]: "lift r s = (r, s)"
  by (simp add: lift_def)

lemma bind_act_apply [act_simps]:
  "bind_act m f s = (case m s of (Inl e, s') \<Rightarrow> (Inl e, s') | (Inr a, s') \<Rightarrow> f a s')"
  by (simp add: bind_act_def)

lemma bind_act_Inl [act_simps]: "m s = (Inl e, s') \<Longrightarrow> bind_act m f s = (Inl e, s')"
  by (simp add: bind_act_def)

lemma bind_act_Inr [act_simps]: "m s = (Inr a, s') \<Longrightarrow> bind_act m f s = f a s'"
  by (simp add: bind_act_def)

lemma bind_act_ret_left: "bind_act (ret a) f = f a"
  by (simp add: bind_act_def ret_def)

lemma bind_act_ret_right: "bind_act m ret = m"
  by (rule ext) (simp add: bind_act_def ret_def split: prod.splits sum.splits)

lemma bind_act_assoc: "bind_act (bind_act m f) g = bind_act m (\<lambda>a. bind_act (f a) g)"
  by (rule ext) (simp add: bind_act_def split: prod.splits sum.splits)

lemma bind_act_throw: "bind_act (throw e) f = throw e"
  by (simp add: bind_act_def throw_def)

lemma bind_act_lift_Inl: "bind_act (lift (Inl e)) f = throw e"
  by (simp add: bind_act_def lift_def throw_def)

lemma bind_act_lift_Inr: "bind_act (lift (Inr a)) f = f a"
  by (simp add: bind_act_def lift_def)

lemmas act_laws [simp] = bind_act_ret_left bind_act_ret_right bind_act_assoc
  bind_act_throw bind_act_lift_Inl bind_act_lift_Inr

text \<open>
  Whatever a computation does to a state, a property of the state that every step keeps
  holds of the final state: the frame rule of the monad, used for every "this operation
  does not touch that part of the world" lemma.
\<close>

lemma bind_act_preserves:
  assumes m: "\<And>s r s'. m s = (r, s') \<Longrightarrow> P s \<Longrightarrow> P s'"
    and f: "\<And>a s r s'. f a s = (r, s') \<Longrightarrow> P s \<Longrightarrow> P s'"
    and run: "bind_act m f s = (r, s')" and P: "P s"
  shows "P s'"
proof (cases "m s")
  case (Pair r1 s1)
  with m P have "P s1" by blast
  show ?thesis
  proof (cases r1)
    case (Inl e)
    with Pair run \<open>P s1\<close> show ?thesis by (simp add: bind_act_def)
  next
    case (Inr a)
    with Pair run have "f a s1 = (r, s')" by (simp add: bind_act_def)
    with f \<open>P s1\<close> show ?thesis by blast
  qed
qed

text \<open>
  \<open>preserves P f\<close>: every run of \<open>f\<close> from a state satisfying \<open>P\<close> ends in one;
  closed under binding, so an invariant of every SDK call is an invariant of a handler.
\<close>

definition preserves :: "('s \<Rightarrow> bool) \<Rightarrow> ('s, 'e, 'a) act \<Rightarrow> bool" where
  "preserves P f \<longleftrightarrow> (\<forall>s r s'. f s = (r, s') \<longrightarrow> P s \<longrightarrow> P s')"

lemma preservesD: "preserves P f \<Longrightarrow> f s = (r, s') \<Longrightarrow> P s \<Longrightarrow> P s'"
  unfolding preserves_def by blast

lemma preserves_ret [intro]: "preserves P (ret a)"
  by (simp add: preserves_def act_simps)

lemma preserves_throw [intro]: "preserves P (throw e)"
  by (simp add: preserves_def act_simps)

lemma preserves_lift [intro]: "preserves P (lift x)"
  by (simp add: preserves_def act_simps)

lemma preserves_bind [intro]:
  assumes m: "preserves P m" and f: "\<And>a. preserves P (f a)"
  shows "preserves P (bind_act m f)"
  unfolding preserves_def
proof (intro allI impI)
  fix s r s'
  assume run: "bind_act m f s = (r, s')" and P: "P s"
  show "P s'"
    by (rule bind_act_preserves [where m = m and P = P and f = f, OF _ _ run P]) (blast intro: preservesD [OF m] preservesD [OF f])+
qed

subsection \<open>Strings\<close>

text \<open>Rust string literals with line breaks and quotes, as character lists.\<close>

definition newline :: string where
  "newline = [CHR 0x0A]"

definition apostrophe :: char where
  "apostrophe = CHR 0x27"

text \<open>\<open>s.contains(t)\<close> on Rust strings: \<open>t\<close> occurs contiguously in \<open>s\<close>.\<close>

definition str_contains :: "string \<Rightarrow> string \<Rightarrow> bool" where
  "str_contains s t \<longleftrightarrow> sublist t s"

lemma str_contains_append_middle [simp]: "str_contains (a @ t @ b) t"
  by (simp add: str_contains_def)

text \<open>Evaluating \<open>str_contains\<close> on literals, by the library's code equations.\<close>

lemmas str_contains_eval = str_contains_def sublist_code prefix_code

end
