(* ===== verification/Json.thy ===== *)
theory Json
  imports Complex_Main Prelude
begin

text \<open>
  The numbers and JSON values the message handler reads and renders
  (\<open>src/message-handler/src/event_handler.rs\<close>, lines 50--64): Rust's \<open>f64\<close> with the
  division by two and the \<open>{:.2}\<close> formatting the handler applies to the amount, and
  serde_json's \<open>Value\<close> with the indexing and the \<open>as_f64\<close>/\<open>as_str\<close> accessors.
  A finite double is a sign, a mantissa below \<open>2^53\<close> and an exponent in
  \<open>[-1074, 971]\<close>; its value is an exact rational. JSON input never yields NaN or an
  infinity (serde_json rejects them and out-of-range literals), so finite doubles are all
  the handler meets. A decimal reader for rendered amounts states what the rendering means.
\<close>

section \<open>Finite doubles\<close>

text \<open>\<open>F64 s m e\<close> is \<open>(-1)^s * m * 2^e\<close>; the sign is kept apart so that \<open>-0.0\<close> exists.\<close>

datatype f64 = F64 (f64_neg: bool) (f64_mant: nat) (f64_exp: int)

definition f64_ok :: "f64 \<Rightarrow> bool" where
  "f64_ok x \<longleftrightarrow> f64_mant x < 2 ^ 53 \<and> -1074 \<le> f64_exp x \<and> f64_exp x \<le> 971"

definition f64_val :: "f64 \<Rightarrow> rat" where
  "f64_val x = (if f64_neg x then -1 else 1) * of_nat (f64_mant x) * power_int 2 (f64_exp x)"

definition round_half_even :: "rat \<Rightarrow> int" where
  "round_half_even q = (let f = \<lfloor>q\<rfloor>; r = q - of_int f in
     if 1 / 2 < r then f + 1 else if r < 1 / 2 then f else if even f then f else f + 1)"

definition f64_half :: "f64 \<Rightarrow> f64" where
  "f64_half x = (if -1074 < f64_exp x then F64 (f64_neg x) (f64_mant x) (f64_exp x - 1)
                 else F64 (f64_neg x) (nat (round_half_even (of_nat (f64_mant x) / 2))) (f64_exp x))"

section \<open>Rendering with a fixed number of decimals\<close>

text \<open>\<open>format!("{:.p}", x)\<close> (\<open>core::fmt::float\<close>, \<open>flt2dec::to_exact_fixed_str\<close>): the
  exact value of \<open>x\<close> rounded to \<open>p\<close> decimals, ties to even (the \<open>dragon\<close> fallback
  checks the preceding digit's parity on an exact half), a minus sign whenever the sign
  bit is set (so \<open>-0.001\<close> renders as \<open>-0.00\<close>), the integer digits without grouping,
  and \<open>p\<close> fraction digits.\<close>

definition digit_chr :: "nat \<Rightarrow> char" where
  "digit_chr d = ''0123456789'' ! d"

fun nat_str :: "nat \<Rightarrow> string" where
  "nat_str n = (if n < 10 then [digit_chr n] else nat_str (n div 10) @ [digit_chr (n mod 10)])"

declare nat_str.simps [simp del]

definition pad_zeros :: "nat \<Rightarrow> string \<Rightarrow> string" where
  "pad_zeros p s = replicate (p - length s) (CHR ''0'') @ s"

definition fmt_prec :: "nat \<Rightarrow> f64 \<Rightarrow> string" where
  "fmt_prec p x = (let c = nat (round_half_even (\<bar>f64_val x\<bar> * 10 ^ p)) in
     (if f64_neg x then ''-'' else '''') @ nat_str (c div 10 ^ p) @
     (if p = 0 then '''' else ''.'' @ pad_zeros p (nat_str (c mod 10 ^ p))))"

section \<open>Reading a rendered decimal back\<close>

text \<open>An optional minus sign, a nonempty run of digits, a point and exactly \<open>p\<close> digits.\<close>

definition digit_val :: "char \<Rightarrow> nat option" where
  "digit_val c = (let n = of_char c in if 48 \<le> n \<and> n < 58 then Some (n - 48) else None)"

fun read_digits :: "nat \<Rightarrow> string \<Rightarrow> nat option" where
  "read_digits acc [] = Some acc"
| "read_digits acc (c # cs) = (case digit_val c of None \<Rightarrow> None | Some d \<Rightarrow> read_digits (10 * acc + d) cs)"

definition read_fixed :: "nat \<Rightarrow> string \<Rightarrow> rat option" where
  "read_fixed p s =
     (let neg = (take 1 s = ''-''); t = (if neg then drop 1 s else s);
          ip = takeWhile (\<lambda>c. c \<noteq> CHR ''.'') t; fp = drop (Suc (length ip)) t in
      if ip = [] \<or> length ip = length t \<or> length fp \<noteq> p then None
      else case (read_digits 0 ip, read_digits 0 fp) of
             (Some a, Some b) \<Rightarrow> Some ((if neg then -1 else 1) * (of_nat a + of_nat b / 10 ^ p))
           | _ \<Rightarrow> None)"

section \<open>JSON values\<close>

text \<open>serde_json's \<open>Value\<close>. Without the \<open>arbitrary_precision\<close> feature every \<open>Number\<close> has an
  \<open>f64\<close> reading (\<open>Number::as_f64\<close> is total), and that reading is all the handler asks of a
  number, so a number is represented by it. An object is its \<open>Map\<close>'s entries, keys distinct.\<close>

datatype json = JNull | JBool bool | JNumber f64 | JString string | JArray "json list"
  | JObject "(string \<times> json) list"

text \<open>\<open>impl Index<&str> for Value\<close>: an object's entry, and \<open>Null\<close> for a missing key or a
  value that is not an object.\<close>

definition json_index :: "json \<Rightarrow> string \<Rightarrow> json" where
  "json_index v k = (case v of JObject kvs \<Rightarrow> (case map_of kvs k of Some x \<Rightarrow> x | None \<Rightarrow> JNull) | _ \<Rightarrow> JNull)"

definition as_f64 :: "json \<Rightarrow> f64 option" where
  "as_f64 v = (case v of JNumber x \<Rightarrow> Some x | _ \<Rightarrow> None)"

definition as_str :: "json \<Rightarrow> string option" where
  "as_str v = (case v of JString s \<Rightarrow> Some s | _ \<Rightarrow> None)"

section \<open>Rounding\<close>

lemma round_half_even_bounds:
  "\<bar>q - of_int (round_half_even q)\<bar> \<le> 1 / 2"
proof -
  have "of_int \<lfloor>q\<rfloor> \<le> q" "q < of_int \<lfloor>q\<rfloor> + 1" using floor_correct [of q] by simp_all
  then show ?thesis unfolding round_half_even_def Let_def by (auto simp: abs_if; linarith)
qed

lemma round_half_even_nonneg: "0 \<le> q \<Longrightarrow> 0 \<le> round_half_even q"
  by (simp add: round_half_even_def Let_def)

lemma round_half_even_int [simp]: "round_half_even (of_int n) = n"
  by (simp add: round_half_even_def)

section \<open>Decimal digits\<close>

lemma digit_chr_props:
  assumes "d < 10"
  shows "digit_val (digit_chr d) = Some d" "digit_chr d \<noteq> CHR ''.''" "digit_chr d \<noteq> CHR ''-''"
  using assms by (auto simp: numeral_eq_Suc less_Suc_eq digit_chr_def digit_val_def)

lemma read_digits_append:
  "read_digits acc (s @ t) = (case read_digits acc s of None \<Rightarrow> None | Some a \<Rightarrow> read_digits a t)"
  by (induction s arbitrary: acc) (simp_all split: option.splits)

lemma nat_str_small [simp]: "n < 10 \<Longrightarrow> nat_str n = [digit_chr n]"
  by (simp add: nat_str.simps)

lemma nat_str_large: "\<not> n < 10 \<Longrightarrow> nat_str n = nat_str (n div 10) @ [digit_chr (n mod 10)]"
  by (simp add: nat_str.simps)

lemma nat_str_simps:
  "nat_str n \<noteq> []" "\<forall>c \<in> set (nat_str n). c \<noteq> CHR ''.'' \<and> c \<noteq> CHR ''-''"
  by (induction n rule: nat_str.induct) (case_tac "n < 10"; simp add: nat_str_large digit_chr_props)+

lemma read_digits_nat_str:
  "read_digits acc (nat_str n) = Some (acc * 10 ^ length (nat_str n) + n)"
proof (induction n arbitrary: acc rule: nat_str.induct)
  case (1 n)
  show ?case
  proof (cases "n < 10")
    case True then show ?thesis by (simp add: digit_chr_props)
  next
    case False
    then have "nat_str n = nat_str (n div 10) @ [digit_chr (n mod 10)]" by (rule nat_str_large)
    with False 1 show ?thesis by (simp add: read_digits_append digit_chr_props algebra_simps)
  qed
qed

lemma length_nat_str: "n < 10 ^ p \<Longrightarrow> 0 < p \<Longrightarrow> length (nat_str n) \<le> p"
proof (induction n arbitrary: p rule: nat_str.induct)
  case (1 n)
  show ?case
  proof (cases "n < 10")
    case False
    with "1.prems" obtain q where p: "p = Suc q" and q: "0 < q"
      by (cases p; cases "p - 1") (auto simp: power_Suc)
    with "1.prems" have "n div 10 < 10 ^ q" by (simp add: less_mult_imp_div_less mult.commute)
    with 1 False p q show ?thesis by (simp add: nat_str_large)
  qed (use "1.prems" in simp)
qed

lemma read_digits_zeros: "read_digits 0 (replicate k (CHR ''0'') @ s) = read_digits 0 s"
  by (induction k) (simp_all add: digit_val_def)

lemma read_fixed_parts:
  assumes p: "0 < p" and b: "b < 10 ^ p"
  shows "read_fixed p ((if neg then ''-'' else '''') @ nat_str a @ ''.'' @ pad_zeros p (nat_str b)) =
           Some ((if neg then -1 else 1) * (of_nat a + of_nat b / 10 ^ p))"
proof -
  have tw: "takeWhile (\<lambda>c. c \<noteq> CHR ''.'') (nat_str a @ CHR ''.'' # z) = nat_str a" for z
    using nat_str_simps(2) [of a] by (simp add: takeWhile_append2)
  have hd: "take 1 (nat_str a @ z) \<noteq> ''-''" for z
    using nat_str_simps [of a] by (cases "nat_str a") auto
  have len: "length (pad_zeros p (nat_str b)) = p"
    using length_nat_str [OF b p] by (simp add: pad_zeros_def)
  have rz: "read_digits 0 (pad_zeros p (nat_str b)) = Some b"
    by (simp add: pad_zeros_def read_digits_zeros read_digits_nat_str)
  show ?thesis
    using nat_str_simps(1) [of a] len hd [of "CHR ''.'' # pad_zeros p (nat_str b)"]
    by (simp add: read_fixed_def Let_def tw rz read_digits_nat_str)
qed

section \<open>A rendered value reads back within half a unit of its last place\<close>

lemma f64_val_abs: "\<bar>f64_val x\<bar> = of_nat (f64_mant x) * power_int 2 (f64_exp x)"
  by (simp add: f64_val_def abs_mult abs_of_pos)

lemma f64_val_signed: "f64_val x = (if f64_neg x then -1 else 1) * \<bar>f64_val x\<bar>"
  by (simp add: f64_val_abs) (simp add: f64_val_def)

lemma fmt_prec_reads:
  assumes p: "0 < p"
  shows "read_fixed p (fmt_prec p x) =
           Some ((if f64_neg x then -1 else 1) * of_int (round_half_even (\<bar>f64_val x\<bar> * 10 ^ p)) / 10 ^ p)"
proof -
  define c where "c = nat (round_half_even (\<bar>f64_val x\<bar> * 10 ^ p))"
  have c: "(of_nat c :: rat) = of_int (round_half_even (\<bar>f64_val x\<bar> * 10 ^ p))"
    using round_half_even_nonneg [of "\<bar>f64_val x\<bar> * 10 ^ p"] by (simp add: c_def)
  have split: "(of_nat (c div 10 ^ p) + of_nat (c mod 10 ^ p) / 10 ^ p :: rat) = of_nat c / 10 ^ p"
  proof -
    have "c = c div 10 ^ p * 10 ^ p + c mod 10 ^ p" by (rule div_mult_mod_eq [symmetric])
    then have "(of_nat c :: rat) = of_nat (c div 10 ^ p * 10 ^ p + c mod 10 ^ p)" by (rule arg_cong)
    then have "(of_nat c :: rat) = of_nat (c div 10 ^ p) * 10 ^ p + of_nat (c mod 10 ^ p)"
      by (simp only: of_nat_add of_nat_mult of_nat_power of_nat_numeral)
    then show ?thesis by (simp add: field_simps)
  qed
  have "fmt_prec p x = (if f64_neg x then ''-'' else '''') @ nat_str (c div 10 ^ p) @ ''.'' @
                         pad_zeros p (nat_str (c mod 10 ^ p))"
    using p by (simp add: fmt_prec_def c_def Let_def)
  then show ?thesis
    using read_fixed_parts [OF p, of "c mod 10 ^ p" "f64_neg x" "c div 10 ^ p"] split c by simp
qed

lemma fmt_prec_close:
  assumes p: "0 < p"
  shows "\<exists>r. read_fixed p (fmt_prec p x) = Some r \<and> \<bar>r - f64_val x\<bar> \<le> 1 / (2 * 10 ^ p)"
proof -
  let ?a = "\<bar>f64_val x\<bar>"
  let ?c = "of_int (round_half_even (?a * 10 ^ p)) :: rat"
  have "\<bar>?a * 10 ^ p - ?c\<bar> \<le> 1 / 2" by (rule round_half_even_bounds)
  then have "\<bar>?a * 10 ^ p - ?c\<bar> / 10 ^ p \<le> (1 / 2) / 10 ^ p"
    by (rule divide_right_mono) simp
  moreover have "?a - ?c / 10 ^ p = (?a * 10 ^ p - ?c) / 10 ^ p" by (simp add: field_simps)
  ultimately have "\<bar>?a - ?c / 10 ^ p\<bar> \<le> 1 / (2 * 10 ^ p)" by (simp add: abs_divide)
  then have close: "\<bar>?c / 10 ^ p - ?a\<bar> \<le> 1 / (2 * 10 ^ p)" by (simp add: abs_minus_commute)
  have "\<bar>(if f64_neg x then -1 else 1) * ?c / 10 ^ p - f64_val x\<bar> = \<bar>?c / 10 ^ p - ?a\<bar>"
    by (subst (2) f64_val_signed) (auto simp: abs_minus_commute)
  with close fmt_prec_reads [OF p, of x] show ?thesis by auto
qed

section \<open>Halving\<close>

text \<open>\<open>x / 2.0\<close> is exact unless the result leaves the normal range; for a value at the
  smallest exponent the mantissa is halved and rounded to even, as IEEE 754 division does.
  In every case the result is again a finite double.\<close>

lemma round_half_even_le: "round_half_even (of_nat m / 2) \<le> int m"
proof -
  have "\<bar>of_nat m / 2 - of_int (round_half_even (of_nat m / 2))\<bar> \<le> (1 / 2 :: rat)"
    by (rule round_half_even_bounds)
  then have "2 * of_int (round_half_even (of_nat m / 2)) \<le> (of_nat m + 1 :: rat)" by linarith
  then have "2 * round_half_even (of_nat m / 2) \<le> int m + 1"
    by linarith
  then show ?thesis by linarith
qed

lemma f64_val_half_exact:
  "-1074 < f64_exp x \<Longrightarrow> f64_val (f64_half x) = f64_val x / 2"
  by (simp add: f64_half_def f64_val_def power_int_diff)

lemma f64_small_exp:
  assumes "f64_ok x" "\<not> -1074 < f64_exp x"
  shows "\<bar>f64_val x\<bar> < power_int 2 (-1021)"
proof -
  from assms have e: "f64_exp x = -1074" and m: "f64_mant x < 2 ^ 53" by (auto simp: f64_ok_def)
  have "(of_nat (f64_mant x) :: rat) < 2 ^ 53" using m by (metis of_nat_less_iff of_nat_numeral of_nat_power)
  then have "of_nat (f64_mant x) * power_int 2 (-1074) < (2 ^ 53 :: rat) * power_int 2 (-1074)"
    by (simp add: mult_strict_right_mono)
  also have "(2 ^ 53 :: rat) * power_int 2 (-1074) = power_int 2 (-1021)"
  proof -
    have "(2 ^ 53 :: rat) = power_int 2 53" by simp
    then show ?thesis by (simp only: power_int_add [symmetric]) simp
  qed
  finally show ?thesis by (simp add: f64_val_abs e)
qed

lemma round_half_even_halves:
  "\<bar>round_half_even (q * 100) - 2 * round_half_even (q / 2 * 100)\<bar> \<le> 1"
proof -
  define a b where "a = round_half_even (q * 100)" and "b = round_half_even (q / 2 * 100)"
  have "\<bar>q * 100 - of_int a\<bar> \<le> 1 / 2" "\<bar>q / 2 * 100 - of_int b\<bar> \<le> 1 / 2"
    unfolding a_def b_def by (rule round_half_even_bounds)+
  then have "\<bar>of_int (a - 2 * b)\<bar> < (2 :: rat)"
    unfolding abs_le_iff abs_less_iff of_int_diff of_int_mult by linarith
  then have "\<bar>a - 2 * b\<bar> < 2" by linarith
  then have "\<bar>a - 2 * b\<bar> \<le> 1" by linarith
  then show ?thesis by (simp add: a_def b_def)
qed

section \<open>Accessors\<close>

lemma json_index_simps [simp]:
  "json_index (JObject kvs) k = (case map_of kvs k of Some x \<Rightarrow> x | None \<Rightarrow> JNull)"
  "\<forall>kvs. v \<noteq> JObject kvs \<Longrightarrow> json_index v k = JNull"
  by (auto simp: json_index_def split: json.splits)

lemma as_f64_Some_iff [simp]: "as_f64 v = Some x \<longleftrightarrow> v = JNumber x"
  by (simp add: as_f64_def split: json.splits)

lemma as_str_Some_iff [simp]: "as_str v = Some s \<longleftrightarrow> v = JString s"
  by (simp add: as_str_def split: json.splits)

section \<open>Properties of halving\<close>

lemma abs_signed_scaled_diff:
  "0 < (P :: rat) \<Longrightarrow>
     \<bar>(if s then -1 else 1) * a * P - (if s then -1 else 1) * b * P\<bar> = \<bar>a - b\<bar> * P"
proof -
  assume P: "0 < P"
  have "(if s then -1 else 1) * a * P - (if s then -1 else 1) * b * P = (if s then -1 else 1) * ((a - b) * P)"
    by (simp add: algebra_simps)
  with P show ?thesis by (simp add: abs_mult)
qed

text \<open>C31: \<open>amount / 2.0\<close> is again a finite double (mantissa below \<open>2^53\<close>,
  exponent in range), and it is the exact half rounded to the nearest double: it differs
  from the exact half by at most \<open>2^-1075\<close>, half the spacing of the smallest subnormals.\<close>

theorem f64_half_ok:
  assumes ok: "f64_ok x"
  shows "f64_ok (f64_half x) \<and> \<bar>f64_val (f64_half x) - f64_val x / 2\<bar> \<le> power_int 2 (-1075)"
proof
  show "f64_ok (f64_half x)"
    using ok round_half_even_le [of "f64_mant x"] by (auto simp: f64_ok_def f64_half_def)
  show "\<bar>f64_val (f64_half x) - f64_val x / 2\<bar> \<le> power_int 2 (-1075)"
  proof (cases "-1074 < f64_exp x")
    case True
    then show ?thesis by (simp add: f64_val_half_exact)
  next
    case False
    with ok have e: "f64_exp x = -1074" by (simp add: f64_ok_def)
    let ?m = "f64_mant x" and ?P = "power_int (2 :: rat) (-1074)"
    let ?sg = "if f64_neg x then -1 else 1 :: rat"
    have h: "f64_val (f64_half x) = ?sg * of_int (round_half_even (of_nat ?m / 2)) * ?P"
      using e round_half_even_nonneg [of "of_nat ?m / 2"] by (simp add: f64_half_def f64_val_def)
    have v: "f64_val x / 2 = ?sg * (of_nat ?m / 2) * ?P" by (simp add: f64_val_def e)
    have "\<bar>of_int (round_half_even (of_nat ?m / 2)) - (of_nat ?m / 2 :: rat)\<bar> \<le> 1 / 2"
      using round_half_even_bounds [of "of_nat ?m / 2"] by (simp add: abs_minus_commute)
    then have "\<bar>of_int (round_half_even (of_nat ?m / 2)) - (of_nat ?m / 2 :: rat)\<bar> * ?P \<le> 1 / 2 * ?P"
      by (rule mult_right_mono) simp
    moreover have "\<bar>f64_val (f64_half x) - f64_val x / 2\<bar> =
                   \<bar>of_int (round_half_even (of_nat ?m / 2)) - (of_nat ?m / 2 :: rat)\<bar> * ?P"
      unfolding h v by (rule abs_signed_scaled_diff) simp
    moreover have "1 / 2 * ?P = power_int 2 (-1075)"
    proof -
      have "(1 / 2 :: rat) = power_int 2 (-1)" by simp
      then show ?thesis by (simp only: power_int_add [symmetric]) simp
    qed
    ultimately show ?thesis by simp
  qed
qed

theorem f64_half_ok_witness:
  "f64_ok (f64_half (F64 True 1 (-1074))) \<and>
   \<bar>f64_val (f64_half (F64 True 1 (-1074))) - f64_val (F64 True 1 (-1074)) / 2\<bar> \<le> power_int 2 (-1075)"
  using f64_half_ok [of "F64 True 1 (-1074)"] by (simp add: f64_ok_def)

text \<open>C32: halving agrees with exact division by two exactly when the double is not at the
  bottom of the subnormal range with an odd mantissa: everywhere else \<open>amount / 2.0\<close> is
  the exact half, and there it is rounded (to even).\<close>

theorem f64_half_exact_iff:
  assumes "f64_ok x"
  shows "f64_val (f64_half x) = f64_val x / 2 \<longleftrightarrow> -1074 < f64_exp x \<or> even (f64_mant x)"
proof (cases "-1074 < f64_exp x")
  case True
  then show ?thesis by (simp add: f64_val_half_exact)
next
  case False
  let ?m = "f64_mant x" and ?P = "power_int (2 :: rat) (f64_exp x)"
  let ?sg = "if f64_neg x then -1 else 1 :: rat"
  have P: "0 < ?P" by simp
  have "f64_val (f64_half x) = ?sg * of_int (round_half_even (of_nat ?m / 2)) * ?P"
    using False round_half_even_nonneg [of "of_nat ?m / 2"]
    by (simp add: f64_half_def f64_val_def)
  moreover have "f64_val x / 2 = ?sg * (of_nat ?m / 2) * ?P" by (simp add: f64_val_def)
  ultimately have "f64_val (f64_half x) = f64_val x / 2 \<longleftrightarrow>
                     of_int (round_half_even (of_nat ?m / 2)) = (of_nat ?m / 2 :: rat)"
    using P by auto
  also have "\<dots> \<longleftrightarrow> even ?m"
  proof
    assume eq: "of_int (round_half_even (of_nat ?m / 2)) = (of_nat ?m / 2 :: rat)"
    then have "of_int (2 * round_half_even (of_nat ?m / 2)) = (of_nat ?m :: rat)" by simp
    then have "2 * round_half_even (of_nat ?m / 2) = int ?m"
      by (metis of_int_eq_iff of_int_of_nat_eq)
    then show "even ?m" by (metis dvd_triv_left even_of_nat)
  next
    assume "even ?m"
    then obtain k where "?m = 2 * k" by blast
    then have "(of_nat ?m / 2 :: rat) = of_int (int k)" by simp
    then show "of_int (round_half_even (of_nat ?m / 2)) = (of_nat ?m / 2 :: rat)"
      by (simp only: round_half_even_int)
  qed
  finally show ?thesis using False by simp
qed

theorem f64_half_exact_iff_witness:
  "f64_ok (F64 False 1 (-1074)) \<and> f64_val (f64_half (F64 False 1 (-1074))) \<noteq> f64_val (F64 False 1 (-1074)) / 2"
  using f64_half_exact_iff [of "F64 False 1 (-1074)"] by (simp add: f64_ok_def)

end
