(* ===== verification/Sdk.thy ===== *)
theory Sdk
  imports Json
begin

text \<open>
  The data the handlers exchange with the AWS SDK and the Lambda runtime, as far as the
  handlers read or build it: the S3 notification event (\<open>aws_lambda_events::s3\<close>), the
  Bedrock Converse request and response types (\<open>aws_sdk_bedrockruntime::types\<close>), the
  two builders whose \<open>build()?\<close> the attachment handler calls, and
  \<open>ByteStream::collect\<close>, which aggregates a streamed body. These are library types:
  the model keeps their constructors and the fields the code touches, and drops payloads
  the code never inspects (an \<open>ImageBlock\<close> is just \<open>Image\<close>).
\<close>

subsection \<open>S3 notification events\<close>

text \<open>
  \<open>S3EventRecord.s3.bucket.name\<close> and \<open>.s3.object.key\<close> are \<open>Option<String>\<close>; the
  handler reads nothing else of a record.
\<close>

record s3_event_record =
  s3_bucket_name :: "string option"
  s3_object_key :: "string option"

record s3_event =
  s3_records :: "s3_event_record list"

subsection \<open>SQS events\<close>

text \<open>
  \<open>aws_lambda_events::sqs::SqsEvent\<close>: its \<open>records\<close>, each an \<open>SqsMessage\<close> whose
  \<open>body\<close> is an \<open>Option<String>\<close>; the message handler reads nothing else of a record.
\<close>

record sqs_message =
  sqs_body :: "string option"

record sqs_event =
  sqs_records :: "sqs_message list"

subsection \<open>Bedrock Converse types\<close>

datatype conversation_role = User | Assistant

datatype document_format = Pdf | Csv | Doc | Docx | Html | Md | Txt | Xls | Xlsx

datatype document_source = Bytes bytes | S3Location string

record document_block =
  doc_format :: document_format
  doc_name :: string
  doc_source :: "document_source option"

datatype content_block =
    is_text: Text (text_of: string)
  | Document document_block
  | Image
  | Video
  | ToolUse
  | ToolResult
  | GuardContent
  | CachePoint
  | ReasoningContent
  | UnknownContent

record message =
  role :: conversation_role
  content :: "content_block list"

text \<open>The \<open>ConverseOutput\<close> enum (the response's \<open>output\<close> field) and the operation's output.\<close>

datatype converse_output = is_message: Message (message_of: message) | UnknownOutput

record converse_response =
  co_output :: "converse_output option"

subsection \<open>Builders\<close>

text \<open>
  A builder collects optional fields; \<open>build()\<close> fails with a \<open>BuildError\<close> naming the
  first required field that is unset. \<open>DocumentBlock\<close> requires its format and name
  (the source is optional); \<open>Message\<close> requires its role and content. \<open>content(c)\<close>
  appends \<open>c\<close> to the content list, creating it on the first call.
\<close>

record document_block_builder =
  dbb_format :: "document_format option"
  dbb_name :: "string option"
  dbb_source :: "document_source option"

definition document_block_builder :: document_block_builder where
  "document_block_builder = \<lparr>dbb_format = None, dbb_name = None, dbb_source = None\<rparr>"

definition document_block_build :: "document_block_builder \<Rightarrow> error + document_block" where
  "document_block_build b =
     (case dbb_format b of
        None \<Rightarrow> Inl (BuildError ''format'')
      | Some f \<Rightarrow>
          (case dbb_name b of
             None \<Rightarrow> Inl (BuildError ''name'')
           | Some n \<Rightarrow> Inr \<lparr>doc_format = f, doc_name = n, doc_source = dbb_source b\<rparr>))"

record message_builder =
  mb_role :: "conversation_role option"
  mb_content :: "content_block list option"

definition message_builder :: message_builder where
  "message_builder = \<lparr>mb_role = None, mb_content = None\<rparr>"

definition mb_push_content :: "content_block \<Rightarrow> message_builder \<Rightarrow> message_builder" where
  "mb_push_content c b =
     b\<lparr>mb_content := Some (case mb_content b of None \<Rightarrow> [c] | Some cs \<Rightarrow> cs @ [c])\<rparr>"

definition message_build :: "message_builder \<Rightarrow> error + message" where
  "message_build b =
     (case mb_role b of
        None \<Rightarrow> Inl (BuildError ''role'')
      | Some r \<Rightarrow>
          (case mb_content b of
             None \<Rightarrow> Inl (BuildError ''content'')
           | Some cs \<Rightarrow> Inr \<lparr>role = r, content = cs\<rparr>))"

lemma document_block_build_complete [simp]:
  "document_block_build \<lparr>dbb_format = Some f, dbb_name = Some n, dbb_source = s\<rparr>
     = Inr \<lparr>doc_format = f, doc_name = n, doc_source = s\<rparr>"
  by (simp add: document_block_build_def)

lemma message_build_pushed [simp]:
  "message_build (mb_push_content c b) =
     (case mb_role b of
        None \<Rightarrow> Inl (BuildError ''role'')
      | Some r \<Rightarrow> Inr \<lparr>role = r, content = (case mb_content b of None \<Rightarrow> [c] | Some cs \<Rightarrow> cs @ [c])\<rparr>)"
  by (simp add: message_build_def mb_push_content_def split: option.splits)

lemma mb_push_content_role [simp]: "mb_role (mb_push_content c b) = mb_role b"
  by (simp add: mb_push_content_def)

lemma mb_push_content_content [simp]:
  "mb_content (mb_push_content c b) = Some (case mb_content b of None \<Rightarrow> [c] | Some cs \<Rightarrow> cs @ [c])"
  by (simp add: mb_push_content_def)

subsection \<open>Streamed bodies\<close>

text \<open>
  A response body arrives as a sequence of chunks; the transport may cut it with an I/O
  error (\<open>Inl\<close>). \<open>collect().await\<close> reads the chunks in order into one buffer and fails
  with the first error; \<open>into_bytes()\<close> then gives the contiguous bytes.
\<close>

type_synonym byte_stream = "(string + bytes) list"

fun collect :: "byte_stream \<Rightarrow> error + bytes" where
  "collect [] = Inr []"
| "collect (Inl e # _) = Inl (ByteStreamError e)"
| "collect (Inr c # cs) = (case collect cs of Inl e \<Rightarrow> Inl e | Inr bs \<Rightarrow> Inr (c @ bs))"

text \<open>
  The aggregate is the concatenation of the chunks exactly when no chunk is an error, and
  the error reported is the first one: the collector neither drops nor reorders data.
\<close>

lemma collect_map_Inr [simp]: "collect (map Inr cs) = Inr (concat cs)"
  by (induction cs) auto

lemma collect_Inr_iff:
  "collect s = Inr bs \<longleftrightarrow> (\<exists>cs. s = map Inr cs \<and> bs = concat cs)"
  by (induction s arbitrary: bs rule: collect.induct) (auto simp: Cons_eq_map_conv split: sum.splits)

lemma collect_Inl_iff:
  "collect s = Inl err \<longleftrightarrow> (\<exists>e. find isl s = Some (Inl e) \<and> err = ByteStreamError e)"
  by (induction s rule: collect.induct) (auto split: sum.splits)

subsection \<open>Parsed mail (\<open>mailparse\<close>)\<close>

text \<open>
  \<open>mailparse::ParsedMail\<close> as the mail handler reads it: the headers of a part, in order,
  each with the key as written in the message (\<open>get_key()\<close>) and its decoded value
  (\<open>get_value()\<close>); the outcome of \<open>get_body_raw()\<close>, which undoes the part's
  transfer encoding and can fail; and the part's direct subparts.
\<close>

record mail_header =
  hdr_key :: string
  hdr_value :: string

datatype parsed_mail =
  ParsedMail (pm_headers: "mail_header list") (pm_body_raw: "string + bytes")
             (pm_subparts: "parsed_mail list")

end
