(* ===== verification/World.thy ===== *)
theory World
  imports Sdk
begin

text \<open>
  The outside world the three Lambda handlers act on, and the one interface through
  which they reach it. The \<open>world\<close> record is the state the handlers change: the S3
  objects, the SQS messages enqueued, the webhook posts made, and the trace of every
  external call in the order it was issued. The \<open>services\<close> record is what the world
  does in reply and the handlers cannot change: the process environment, service-side
  faults, how bodies are streamed, the inference model's answers. Each SDK call the code
  makes is one operation here; it logs itself in the trace first, then fails or applies
  its effect, so a handler's trace says exactly which calls it made and in which order.
\<close>

record s3_object =
  obj_body :: bytes
  obj_content_type :: "string option"

datatype call =
    GetObject string string              \<comment> \<open>bucket, key\<close>
  | Converse string message              \<comment> \<open>model id, the user turn\<close>
  | SendMessage string string            \<comment> \<open>queue url, body\<close>
  | GetRawMessageContent string          \<comment> \<open>WorkMail message id\<close>
  | PutObject string string string       \<comment> \<open>bucket, key, content type\<close>
  | PostWebhook string string            \<comment> \<open>url, JSON body\<close>

record world =
  w_s3 :: "(string \<times> string) \<rightharpoonup> s3_object"
  w_queue :: "(string \<times> string) list"
  w_posts :: "(string \<times> string) list"
  w_calls :: "call list"

record services =
  sv_env :: "string \<rightharpoonup> string"
  sv_s3_fault :: "string \<Rightarrow> string \<Rightarrow> string option"
  sv_transport :: "bytes \<Rightarrow> byte_stream"
  sv_converse :: "string \<Rightarrow> message \<Rightarrow> string + converse_response"
  sv_sqs_fault :: "string \<Rightarrow> string \<Rightarrow> string option"
  sv_workmail :: "string \<Rightarrow> string + bytes"
  sv_parse_mail :: "bytes \<Rightarrow> string + parsed_mail"
  sv_uuid :: string
  sv_put_fault :: "string \<Rightarrow> string \<Rightarrow> string option"
  sv_parse_json :: "string \<Rightarrow> string + json"
  sv_webhook :: "string \<Rightarrow> string \<Rightarrow> string + nat"

type_synonym 'a io = "(world, error, 'a) act"

definition log_call :: "call \<Rightarrow> world \<Rightarrow> world" where
  "log_call c w = w\<lparr>w_calls := w_calls w @ [c]\<rparr>"

subsection \<open>The process environment\<close>

text \<open>\<open>std::env::var(name).expect(msg)\<close>: the value, or a panic with \<open>msg\<close>.\<close>

definition env_expect :: "services \<Rightarrow> string \<Rightarrow> string \<Rightarrow> string io" where
  "env_expect sv name msg = (case sv_env sv name of None \<Rightarrow> throw (Panic msg) | Some v \<Rightarrow> ret v)"

subsection \<open>S3\<close>

text \<open>
  \<open>get_object().bucket(b).key(k).send().await\<close>: a service fault at that location
  (access denied, throttling) or a missing object is a \<open>GetObjectError\<close>; otherwise
  the reply carries the object's body as the transport streams it.
\<close>

definition s3_get_object :: "services \<Rightarrow> string \<Rightarrow> string \<Rightarrow> byte_stream io" where
  "s3_get_object sv b k w =
     (let w' = log_call (GetObject b k) w in
      case sv_s3_fault sv b k of
        Some e \<Rightarrow> (Inl (GetObjectError e), w')
      | None \<Rightarrow>
          (case w_s3 w (b, k) of
             None \<Rightarrow> (Inl (GetObjectError ''NoSuchKey''), w')
           | Some obj \<Rightarrow> (Inr (sv_transport sv (obj_body obj)), w')))"

subsection \<open>Bedrock\<close>

text \<open>\<open>converse().model_id(m).messages(msg).send().await\<close>: the model's reply, unmodified.\<close>

definition bedrock_converse :: "services \<Rightarrow> string \<Rightarrow> message \<Rightarrow> converse_response io" where
  "bedrock_converse sv m msg w =
     (let w' = log_call (Converse m msg) w in
      case sv_converse sv m msg of
        Inl e \<Rightarrow> (Inl (ConverseError e), w')
      | Inr r \<Rightarrow> (Inr r, w'))"

subsection \<open>SQS\<close>

text \<open>\<open>send_message().queue_url(q).message_body(body).send().await\<close>: enqueue or fail.\<close>

definition sqs_send_message :: "services \<Rightarrow> string \<Rightarrow> string \<Rightarrow> unit io" where
  "sqs_send_message sv q body w =
     (let w' = log_call (SendMessage q body) w in
      case sv_sqs_fault sv q body of
        Some e \<Rightarrow> (Inl (SendMessageError e), w')
      | None \<Rightarrow> (Inr (), w'\<lparr>w_queue := w_queue w @ [(q, body)]\<rparr>))"

subsection \<open>WorkMail\<close>

text \<open>
  \<open>get_raw_message_content().message_id(id).send().await\<close>: the raw MIME message of an
  in-flight mail, streamed like an S3 body, or a service error.
\<close>

definition workmail_get_raw_message_content :: "services \<Rightarrow> string \<Rightarrow> byte_stream io" where
  "workmail_get_raw_message_content sv mid w =
     (let w' = log_call (GetRawMessageContent mid) w in
      case sv_workmail sv mid of
        Inl e \<Rightarrow> (Inl (GetRawMessageContentError e), w')
      | Inr raw \<Rightarrow> (Inr (sv_transport sv raw), w'))"

subsection \<open>S3 writes\<close>

text \<open>
  \<open>put_object().bucket(b).key(k).content_type(ct).body(bytes).send().await\<close>: store the
  object, replacing any object at that location, unless the service faults.
\<close>

definition s3_put_object :: "services \<Rightarrow> string \<Rightarrow> string \<Rightarrow> string \<Rightarrow> bytes \<Rightarrow> unit io" where
  "s3_put_object sv b k ct body w =
     (let w' = log_call (PutObject b k ct) w in
      case sv_put_fault sv b k of
        Some e \<Rightarrow> (Inl (PutObjectError e), w')
      | None \<Rightarrow> (Inr (), w'\<lparr>w_s3 := (w_s3 w)((b, k) \<mapsto> \<lparr>obj_body = body, obj_content_type = Some ct\<rparr>)\<rparr>))"

subsection \<open>HTTP\<close>

text \<open>
  \<open>reqwest::Client::post(url).json(&body).send().await\<close>, the body already serialised: a
  transport failure (connection, TLS, timeout, an unusable URL) is a \<open>reqwest::Error\<close>;
  otherwise the server has received the body, and \<open>send\<close> returns its response,
  whatever the status code, inside \<open>Ok\<close>. The model's result is that status code.
\<close>

definition reqwest_post :: "services \<Rightarrow> string \<Rightarrow> string \<Rightarrow> nat io" where
  "reqwest_post sv url body w =
     (let w' = log_call (PostWebhook url body) w in
      case sv_webhook sv url body of
        Inl e \<Rightarrow> (Inl (ReqwestError e), w')
      | Inr status \<Rightarrow> (Inr status, w'\<lparr>w_posts := w_posts w @ [(url, body)]\<rparr>))"

subsection \<open>Frame lemmas\<close>

lemma log_call_fields [simp]:
  "w_s3 (log_call c w) = w_s3 w"
  "w_queue (log_call c w) = w_queue w"
  "w_posts (log_call c w) = w_posts w"
  "w_calls (log_call c w) = w_calls w @ [c]"
  by (simp_all add: log_call_def)

lemma env_expect_state [frame_simps]: "env_expect sv n m w = (r, w') \<Longrightarrow> w' = w"
  by (auto simp: env_expect_def act_simps split: option.splits)

lemma s3_get_object_state [frame_simps]:
  "s3_get_object sv b k w = (r, w') \<Longrightarrow> w' = log_call (GetObject b k) w"
  by (auto simp: s3_get_object_def Let_def split: option.splits)

lemma bedrock_converse_state [frame_simps]:
  "bedrock_converse sv m msg w = (r, w') \<Longrightarrow> w' = log_call (Converse m msg) w"
  by (auto simp: bedrock_converse_def Let_def split: sum.splits)

lemma sqs_send_message_state [frame_simps]:
  "sqs_send_message sv q body w = (r, w') \<Longrightarrow>
     w' = (if r = Inr () then (log_call (SendMessage q body) w)\<lparr>w_queue := w_queue w @ [(q, body)]\<rparr>
           else log_call (SendMessage q body) w)"
  by (auto simp: sqs_send_message_def Let_def split: option.splits)

subsection \<open>Locality: operations only append to the logs\<close>

text \<open>
  An operation is local when what it does to a world is what it does to a clean world
  with the same S3 contents and empty logs, appended to the world's logs: its result and
  the calls and messages it adds depend on the S3 contents only, never on what earlier
  operations logged. Every SDK call is local and binding keeps locality, so each handler
  is local; this is what lets a batch be cut into independent records.
\<close>

definition clean :: "world \<Rightarrow> world" where
  "clean w = \<lparr>w_s3 = w_s3 w, w_queue = [], w_posts = [], w_calls = []\<rparr>"

definition world_extend :: "world \<Rightarrow> world \<Rightarrow> world" where
  "world_extend w d =
     \<lparr>w_s3 = w_s3 d, w_queue = w_queue w @ w_queue d, w_posts = w_posts w @ w_posts d,
      w_calls = w_calls w @ w_calls d\<rparr>"

definition local_io :: "'a io \<Rightarrow> bool" where
  "local_io f \<longleftrightarrow> (\<forall>w. f w = map_prod id (world_extend w) (f (clean w)))"

lemma clean_extend [simp]: "clean (world_extend w d) = clean d"
  by (simp add: clean_def world_extend_def)

lemma clean_clean [simp]: "clean (clean w) = clean w"
  by (simp add: clean_def)

lemma extend_assoc: "world_extend (world_extend w d1) d2 = world_extend w (world_extend d1 d2)"
  by (simp add: world_extend_def)

lemma extend_clean_right [simp]: "world_extend w (clean w) = w"
  by (simp add: world_extend_def clean_def)

lemma extend_fields [simp]:
  "w_s3 (world_extend w d) = w_s3 d"
  "w_queue (world_extend w d) = w_queue w @ w_queue d"
  "w_posts (world_extend w d) = w_posts w @ w_posts d"
  "w_calls (world_extend w d) = w_calls w @ w_calls d"
  by (simp_all add: world_extend_def)

lemma clean_fields [simp]:
  "w_s3 (clean w) = w_s3 w" "w_queue (clean w) = []" "w_posts (clean w) = []" "w_calls (clean w) = []"
  by (simp_all add: clean_def)

lemma extend_log_call_clean [simp]: "world_extend w (log_call c (clean w)) = log_call c w"
  by (simp add: world_extend_def log_call_def clean_def)

lemma local_ioD: "local_io f \<Longrightarrow> f w = map_prod id (world_extend w) (f (clean w))"
  unfolding local_io_def by blast

lemma local_io_pure:
  assumes "\<And>w. f w = (r (w_s3 w), w)"
  shows "local_io f"
  by (simp add: local_io_def assms)

lemma local_io_ret [intro]: "local_io (ret a)"
  and local_io_throw [intro]: "local_io (throw e)"
  and local_io_lift [intro]: "local_io (lift x)"
  by (rule local_io_pure, simp add: act_simps)+

lemma local_io_bind [intro]:
  assumes m: "local_io m" and f: "\<And>a. local_io (f a)"
  shows "local_io (bind_act m f)"
  unfolding local_io_def
proof
  fix w
  obtain r1 d1 where m1: "m (clean w) = (r1, d1)" by fastforce
  with local_ioD [OF m, of w] have mw: "m w = (r1, world_extend w d1)" by simp
  show "bind_act m f w = map_prod id (world_extend w) (bind_act m f (clean w))"
  proof (cases r1)
    case (Inl e)
    with m1 mw show ?thesis by (simp add: act_simps)
  next
    case (Inr a)
    obtain r2 d2 where f2: "f a (clean d1) = (r2, d2)" by fastforce
    have "f a (world_extend w d1) = (r2, world_extend (world_extend w d1) d2)"
      using local_ioD [OF f, of a "world_extend w d1"] f2 by simp
    moreover have "f a d1 = (r2, world_extend d1 d2)"
      using local_ioD [OF f, of a d1] f2 by simp
    ultimately show ?thesis using Inr m1 mw by (simp add: act_simps extend_assoc)
  qed
qed

lemma local_io_env_expect [intro]: "local_io (env_expect sv n msg)"
  by (simp add: env_expect_def local_io_ret local_io_throw split: option.splits)

lemma local_io_s3_get_object [intro]: "local_io (s3_get_object sv b k)"
  by (auto simp: local_io_def s3_get_object_def Let_def split: option.splits)

lemma local_io_bedrock_converse [intro]: "local_io (bedrock_converse sv m msg)"
  by (auto simp: local_io_def bedrock_converse_def Let_def split: sum.splits)

lemma local_io_sqs_send_message [intro]: "local_io (sqs_send_message sv q body)"
  by (auto simp: local_io_def sqs_send_message_def Let_def world_extend_def log_call_def clean_def
      split: option.splits)

subsection \<open>Invariants of the SDK calls\<close>

lemma preserves_log_call:
  assumes "\<And>w. P w \<Longrightarrow> P (log_call c w)"
  shows "preserves P (\<lambda>w. (r w, log_call c w))"
  using assms by (simp add: preserves_def)

lemma preserves_env_expect [intro]: "preserves P (env_expect sv n msg)"
  by (auto simp: env_expect_def split: option.splits)

text \<open>Which parts of the world each call leaves alone.\<close>

lemma preserves_s3_get_object:
  "(\<And>w. P w \<Longrightarrow> P (log_call (GetObject b k) w)) \<Longrightarrow> preserves P (s3_get_object sv b k)"
  by (auto simp: preserves_def s3_get_object_def Let_def split: option.splits)

lemma preserves_bedrock_converse:
  "(\<And>w. P w \<Longrightarrow> P (log_call (Converse m msg) w)) \<Longrightarrow> preserves P (bedrock_converse sv m msg)"
  by (auto simp: preserves_def bedrock_converse_def Let_def split: sum.splits)

lemma preserves_sqs_send_message:
  "(\<And>w. P w \<Longrightarrow> P (log_call (SendMessage q body) w)) \<Longrightarrow>
   (\<And>w. P w \<Longrightarrow> P ((log_call (SendMessage q body) w)\<lparr>w_queue := w_queue w @ [(q, body)]\<rparr>)) \<Longrightarrow>
   preserves P (sqs_send_message sv q body)"
  by (auto simp: preserves_def sqs_send_message_def Let_def split: option.splits)

lemma keeps_s3_posts [intro]:
  "preserves (\<lambda>w. w_s3 w = S \<and> w_posts w = P) (s3_get_object sv b k)"
  "preserves (\<lambda>w. w_s3 w = S \<and> w_posts w = P) (bedrock_converse sv m msg)"
  "preserves (\<lambda>w. w_s3 w = S \<and> w_posts w = P) (sqs_send_message sv q body)"
  by (auto intro: preserves_s3_get_object preserves_bedrock_converse preserves_sqs_send_message)

lemma local_io_workmail_get_raw_message_content [intro]:
  "local_io (workmail_get_raw_message_content sv mid)"
  by (auto simp: local_io_def workmail_get_raw_message_content_def Let_def split: sum.splits)

lemma local_io_s3_put_object [intro]: "local_io (s3_put_object sv b k ct body)"
  by (auto simp: local_io_def s3_put_object_def Let_def world_extend_def log_call_def clean_def
      split: option.splits)

lemma reqwest_post_state [frame_simps]:
  "reqwest_post sv url body w = (r, w') \<Longrightarrow>
     w' = (if isl r then log_call (PostWebhook url body) w
           else (log_call (PostWebhook url body) w)\<lparr>w_posts := w_posts w @ [(url, body)]\<rparr>)"
  by (auto simp: reqwest_post_def Let_def split: sum.splits)

lemma local_io_reqwest_post [intro]: "local_io (reqwest_post sv url body)"
  by (auto simp: local_io_def reqwest_post_def Let_def world_extend_def log_call_def clean_def
      split: sum.splits)

subsection \<open>The batch policy\<close>

text \<open>
  Both record loops (\<open>for record in payload.records\<close> with \<open>?\<close> in the body) follow the
  specification's batch policy: records are processed in order, each as if alone, and the
  first failure ends the batch with that failure. \<open>run_until_failure\<close> computes that
  policy from the records' separate outcomes, each a result with the calls issued and the
  entries added to one log; \<open>observe_log g\<close> reads such an outcome off a run, \<open>g\<close> being
  the log (the SQS queue, the webhook posts).
\<close>

fun run_until_failure ::
  "((error + unit) \<times> 'c list \<times> 'm list) list \<Rightarrow> (error + unit) \<times> 'c list \<times> 'm list" where
  "run_until_failure [] = (Inr (), [], [])"
| "run_until_failure ((Inl e, cs, ms) # _) = (Inl e, cs, ms)"
| "run_until_failure ((Inr u, cs, ms) # os) =
     (case run_until_failure os of (r, cs', ms') \<Rightarrow> (r, cs @ cs', ms @ ms'))"

definition observe_log ::
  "(world \<Rightarrow> 'm list) \<Rightarrow> world \<Rightarrow> (error + unit) \<times> world \<Rightarrow> (error + unit) \<times> call list \<times> 'm list" where
  "observe_log g w rw = (fst rw, drop (length (w_calls w)) (w_calls (snd rw)), drop (length (g w)) (g (snd rw)))"

lemma clean_eq_s3: "w_s3 a = w_s3 b \<Longrightarrow> clean a = clean b"
  by (simp add: clean_def)

lemma local_io_clean_step:
  assumes loc: "local_io f" and s3: "\<And>w r d. f (clean w) = (r, d) \<Longrightarrow> w_s3 d = w_s3 w"
    and run: "f (clean w) = (res, d)"
  shows "f w = (res, world_extend w d)" and "clean d = clean w"
proof -
  show "f w = (res, world_extend w d)" using local_ioD [OF loc, of w] run by simp
  from s3 [OF run] show "clean d = clean w" by (intro clean_eq_s3) simp
qed

text \<open>A loop over records whose steps are local and leave S3 alone refines the policy.\<close>

lemma foreach_refines:
  fixes L :: "'r list \<Rightarrow> unit io" and f :: "'r \<Rightarrow> unit io" and g :: "world \<Rightarrow> 'm list"
  assumes nil: "L [] = ret ()" and cons: "\<And>r rs. L (r # rs) = bind_act (f r) (\<lambda>_. L rs)"
    and loc: "\<And>r. local_io (f r)" and s3: "\<And>r w res d. f r (clean w) = (res, d) \<Longrightarrow> w_s3 d = w_s3 w"
    and g_ext: "\<And>w d. g (world_extend w d) = g w @ g d" and g_clean: "\<And>w. g (clean w) = []"
  shows "observe_log g w (L rs w) = run_until_failure (map (\<lambda>r. observe_log g (clean w) (f r (clean w))) rs)"
proof -
  have locL: "local_io (L rs)" for rs
    by (induction rs) (simp_all add: nil cons local_io_bind loc local_io_ret)
  show ?thesis
  proof (induction rs)
    case Nil
    show ?case by (simp add: nil observe_log_def act_simps)
  next
    case (Cons r rs)
    obtain res d where pr: "f r (clean w) = (res, d)" by fastforce
    note step = local_io_clean_step [OF loc s3 pr]
    show ?case
    proof (cases res)
      case (Inl e)
      with pr step show ?thesis by (simp add: cons act_simps observe_log_def g_ext g_clean)
    next
      case (Inr u)
      obtain r' d' where rr: "L rs (clean w) = (r', d')" by fastforce
      have here: "L rs w = (r', world_extend w d')"
        using local_ioD [OF locL, of rs w] rr by simp
      have there: "L rs (world_extend w d) = (r', world_extend (world_extend w d) d')"
        using local_ioD [OF locL, of rs "world_extend w d"] rr step(2) by simp
      from Cons.IH here
      have "run_until_failure (map (\<lambda>r. observe_log g (clean w) (f r (clean w))) rs) = (r', w_calls d', g d')"
        by (simp add: observe_log_def g_ext g_clean)
      with Inr pr step there show ?thesis by (simp add: cons act_simps observe_log_def g_ext g_clean)
    qed
  qed
qed

end
