(* ===== verification/Attachment_Handler.thy ===== *)
theory Attachment_Handler
  imports World
begin

text \<open>
  The extraction pipeline, \<open>src/attachment-handler/src/event_handler.rs\<close>: for each
  record of an S3 notification, in order, fetch the PDF (\<open>fetch_document\<close>), build the
  user turn of prompt and document (\<open>request_message\<close>), call the model
  (\<open>bedrock_converse\<close>), check the shape of its reply (\<open>validate_output\<close>) and enqueue
  the text (\<open>sqs_send_message\<close>); the first failure ends the batch. The prompt is built
  once per invocation (\<open>build_prompt\<close>) from the JSON schema the binary embeds with
  \<open>include_str!\<close>; that file is not among the sources, so the schema text is a
  parameter of the handler.
\<close>

subsection \<open>The prompt (lines 21--30)\<close>

definition prompt_intro :: string where
  "prompt_intro =
     ''Analyze this bill/invoice PDF and extract information from each one.'' @ newline @ newline @
     ''Return your response as a JSON object that conforms to this JSON schema:'' @ newline"

definition rule_amount :: string where
  "rule_amount = ''- If you cannot determine the amount for a document DO NOT try to guess use 0''"

definition rule_date :: string where
  "rule_date =
     ''- If you cannot determine a date field for the document DO NOT try to guess use today'' @
     [apostrophe] @ ''s date''"

definition rule_other :: string where
  "rule_other =
     ''- If you cannot determine the value for any other property DO NOT try to guess use '' @
     [apostrophe] @ ''Unknown'' @ [apostrophe]"

definition rule_format :: string where
  "rule_format =
     ''- Return ONLY a single-line, minified JSON object with no whitespace, no newlines, '' @
     ''no indentation, and no additional text''"

definition prompt_rules :: string where
  "prompt_rules =
     newline @ newline @ ''Rules:'' @ newline @ rule_amount @ newline @ rule_date @ newline @
     rule_other @ newline @ rule_format"

definition build_prompt :: "string \<Rightarrow> string" where
  "build_prompt agent_response_schema = prompt_intro @ agent_response_schema @ prompt_rules"

subsection \<open>Fetching the document (lines 36--45)\<close>

definition fetch_document :: "services \<Rightarrow> string \<Rightarrow> string \<Rightarrow> bytes io" where
  "fetch_document sv bucket key =
     bind_act (s3_get_object sv bucket key) (\<lambda>pdf_stream. lift (collect pdf_stream))"

subsection \<open>The user turn (lines 47--63)\<close>

text \<open>The document block first, then the message: text content first, document second.\<close>

definition request_message :: "string \<Rightarrow> string \<Rightarrow> bytes \<Rightarrow> error + message" where
  "request_message prompt key raw_pdf =
     (case document_block_build
             (document_block_builder\<lparr>dbb_format := Some Pdf, dbb_name := Some key,
                                     dbb_source := Some (Bytes raw_pdf)\<rparr>) of
        Inl e \<Rightarrow> Inl e
      | Inr document_block \<Rightarrow>
          message_build
            (mb_push_content (Document document_block)
              (mb_push_content (Text prompt) (message_builder\<lparr>mb_role := Some User\<rparr>))))"

subsection \<open>Checking the reply (lines 72--86)\<close>

definition validate_output :: "converse_output option \<Rightarrow> error + string" where
  "validate_output out =
     (case out of
        None \<Rightarrow> Inl (StrError ''no response from bedrock'')
      | Some UnknownOutput \<Rightarrow> Inl (StrError ''unknown response from bedrock'')
      | Some (Message message) \<Rightarrow>
          (case content message of
             [] \<Rightarrow> Inl (StrError ''no content from bedrock'')
           | c # _ \<Rightarrow>
               (case c of
                  Text schema \<Rightarrow> Inr schema
                | _ \<Rightarrow> Inl (StrError ''unknown content from bedrock''))))"

subsection \<open>One record (lines 33--93) and the batch (lines 32--96)\<close>

definition process_record ::
  "services \<Rightarrow> string \<Rightarrow> string \<Rightarrow> string \<Rightarrow> s3_event_record \<Rightarrow> unit io" where
  "process_record sv bedrock_model sqs_queue_url prompt record =
     (case s3_bucket_name record of
        None \<Rightarrow> throw (Panic ''no s3 bucket name'')
      | Some bucket \<Rightarrow>
          (case s3_object_key record of
             None \<Rightarrow> throw (Panic ''no s3 object key'')
           | Some key \<Rightarrow>
               bind_act (fetch_document sv bucket key) (\<lambda>raw_pdf.
               bind_act (lift (request_message prompt key raw_pdf)) (\<lambda>user_message.
               bind_act (bedrock_converse sv bedrock_model user_message) (\<lambda>converse_output.
               bind_act (lift (validate_output (co_output converse_output))) (\<lambda>schema.
               sqs_send_message sv sqs_queue_url schema))))))"

fun run_records ::
  "services \<Rightarrow> string \<Rightarrow> string \<Rightarrow> string \<Rightarrow> s3_event_record list \<Rightarrow> unit io" where
  "run_records sv m q p [] = ret ()"
| "run_records sv m q p (r # rs) = bind_act (process_record sv m q p r) (\<lambda>_. run_records sv m q p rs)"

subsection \<open>The handler (lines 9--97)\<close>

definition function_handler :: "string \<Rightarrow> services \<Rightarrow> s3_event \<Rightarrow> unit io" where
  "function_handler agent_response_schema sv event =
     bind_act (env_expect sv ''AWS_BEDROCK_MODEL'' ''AWS_BEDROCK_MODEL not set'') (\<lambda>bedrock_model.
     bind_act (env_expect sv ''AWS_SQS_QUEUE_URL'' ''AWS_SQS_QUEUE_URL not set'') (\<lambda>sqs_queue_url.
     run_records sv bedrock_model sqs_queue_url (build_prompt agent_response_schema)
       (s3_records event)))"

section \<open>Properties\<close>

subsection \<open>Building blocks\<close>

lemma request_message_Inr [simp]:
  "request_message p k bs =
     Inr \<lparr>role = User, content = [Text p, Document \<lparr>doc_format = Pdf, doc_name = k,
                                                       doc_source = Some (Bytes bs)\<rparr>]\<rparr>"
  by (simp add: request_message_def document_block_builder_def message_builder_def)

lemma fetch_document_apply:
  "fetch_document sv b k w =
     (case sv_s3_fault sv b k of
        Some e \<Rightarrow> (Inl (GetObjectError e), log_call (GetObject b k) w)
      | None \<Rightarrow>
          (case w_s3 w (b, k) of
             None \<Rightarrow> (Inl (GetObjectError ''NoSuchKey''), log_call (GetObject b k) w)
           | Some obj \<Rightarrow> (collect (sv_transport sv (obj_body obj)), log_call (GetObject b k) w)))"
  by (simp add: fetch_document_def s3_get_object_def act_simps Let_def split: option.splits)

lemma local_io_fetch_document [intro]: "local_io (fetch_document sv b k)"
  unfolding fetch_document_def by blast

lemma local_io_process_record [intro]: "local_io (process_record sv m q p r)"
  unfolding process_record_def by (auto split: option.splits)

lemma local_io_run_records [intro]: "local_io (run_records sv m q p rs)"
  by (induction rs) auto

lemma process_record_keeps_s3_posts:
  "preserves (\<lambda>w. w_s3 w = S \<and> w_posts w = P) (process_record sv m q p r)"
  unfolding process_record_def fetch_document_def
  by (auto split: option.splits intro!: preserves_bind preserves_lift keeps_s3_posts)

lemma process_record_s3:
  "process_record sv m q p r w = (res, w') \<Longrightarrow> w_s3 w' = w_s3 w \<and> w_posts w' = w_posts w"
  using preservesD [OF process_record_keeps_s3_posts] by blast

lemma run_records_append:
  "run_records sv m q p (rs1 @ rs2) = bind_act (run_records sv m q p rs1) (\<lambda>_. run_records sv m q p rs2)"
  by (induction rs1) simp_all

lemma fetch_document_state: "snd (fetch_document sv b k w) = log_call (GetObject b k) w"
  by (simp add: fetch_document_apply split: option.splits)

text \<open>One record with a location, as straight-line cases: fetch, call the model, check, send.\<close>

lemma process_record_located:
  assumes "s3_bucket_name r = Some b" "s3_object_key r = Some k"
  shows "process_record sv m q p r w =
    (let w1 = log_call (GetObject b k) w in
     case fst (fetch_document sv b k w) of
       Inl e \<Rightarrow> (Inl e, w1)
     | Inr bs \<Rightarrow>
         (let msg = \<lparr>role = User, content = [Text p, Document \<lparr>doc_format = Pdf, doc_name = k,
                                                        doc_source = Some (Bytes bs)\<rparr>]\<rparr>;
              w2 = log_call (Converse m msg) w1 in
          case sv_converse sv m msg of
            Inl e \<Rightarrow> (Inl (ConverseError e), w2)
          | Inr resp \<Rightarrow>
              (case validate_output (co_output resp) of
                 Inl e \<Rightarrow> (Inl e, w2)
               | Inr t \<Rightarrow> sqs_send_message sv q t w2)))"
proof -
  obtain x where f: "fetch_document sv b k w = (x, log_call (GetObject b k) w)"
    using fetch_document_state by (metis prod.collapse)
  show ?thesis
    using assms f
    by (simp add: process_record_def act_simps bedrock_converse_def Let_def
        split: sum.splits)
qed

subsection \<open>The reply check against the specification's ordered checks\<close>

text \<open>
  The specification classifies a reply by four checks in a fixed order (an output, a
  message, some content, a text first block); the first that fails names the error.
  \<open>shape_of\<close> writes these checks with the datatypes' discriminators and selectors,
  independently of the pattern matching of the code; \<open>shape_result\<close> says what the
  handler must return for each class.
\<close>

datatype response_shape =
    NoOutput | UnsupportedOutputVariant | EmptyContent | UnsupportedContentVariant
  | WellFormed string

definition shape_of :: "converse_output option \<Rightarrow> response_shape" where
  "shape_of out =
     (if out = None then NoOutput
      else if \<not> is_message (the out) then UnsupportedOutputVariant
      else if content (message_of (the out)) = [] then EmptyContent
      else if \<not> is_text (hd (content (message_of (the out)))) then UnsupportedContentVariant
      else WellFormed (text_of (hd (content (message_of (the out))))))"

fun shape_result :: "response_shape \<Rightarrow> error + string" where
  "shape_result NoOutput = Inl (StrError ''no response from bedrock'')"
| "shape_result UnsupportedOutputVariant = Inl (StrError ''unknown response from bedrock'')"
| "shape_result EmptyContent = Inl (StrError ''no content from bedrock'')"
| "shape_result UnsupportedContentVariant = Inl (StrError ''unknown content from bedrock'')"
| "shape_result (WellFormed t) = Inr t"

lemmas reply_splits = option.splits converse_output.splits list.splits content_block.splits

text \<open>C4: the handler's chain of \<open>let ... else\<close> checks is the specification's ordered
  classification: for every reply it returns what its class prescribes.\<close>

theorem validate_output_refines_shape: "validate_output out = shape_result (shape_of out)"
  by (auto simp: validate_output_def shape_of_def split: reply_splits)

text \<open>C5: the four failures are told apart: two replies that fail with the same error fail
  the same check, so the error reported names the first check that failed.\<close>

theorem validate_output_error_determines_shape:
  assumes "validate_output o1 = Inl e" and "validate_output o2 = Inl e"
  shows "shape_of o1 = shape_of o2"
  using assms by (auto simp: validate_output_def shape_of_def split: reply_splits)

theorem validate_output_error_determines_shape_witness:
  "validate_output (Some (Message \<lparr>role = Assistant, content = []\<rparr>)) = Inl (StrError ''no content from bedrock'')
   \<and> validate_output (Some (Message \<lparr>role = User, content = []\<rparr>)) = Inl (StrError ''no content from bedrock'')
   \<and> shape_of (Some (Message \<lparr>role = Assistant, content = []\<rparr>)) = shape_of (Some (Message \<lparr>role = User, content = []\<rparr>))"
proof -
  have h1: "validate_output (Some (Message \<lparr>role = Assistant, content = []\<rparr>)) = Inl (StrError ''no content from bedrock'')"
    and h2: "validate_output (Some (Message \<lparr>role = User, content = []\<rparr>)) = Inl (StrError ''no content from bedrock'')"
    by (simp_all add: validate_output_def)
  show ?thesis using h1 h2 validate_output_error_determines_shape [OF h1 h2] by simp
qed

text \<open>C6: a reply is accepted exactly when it is a message whose first block is text, and
  then the payload is that text, unmodified.\<close>

theorem validate_output_Inr_iff:
  "validate_output out = Inr t \<longleftrightarrow> (\<exists>msg cs. out = Some (Message msg) \<and> content msg = Text t # cs)"
  by (auto simp: validate_output_def split: reply_splits)

subsection \<open>A fixture for the witnesses\<close>

text \<open>
  A model that always answers with one text block, services without faults that stream a
  body in one chunk, and a world holding one PDF (its first four bytes, \<open>%PDF\<close>) at
  bucket \<open>b\<close>, key \<open>k\<close>.
\<close>

definition demo_reply :: "string \<Rightarrow> converse_response" where
  "demo_reply t = \<lparr>co_output = Some (Message \<lparr>role = Assistant, content = [Text t]\<rparr>)\<rparr>"

definition demo_services :: "string \<Rightarrow> services" where
  "demo_services t =
     \<lparr>sv_env = [''AWS_BEDROCK_MODEL'' \<mapsto> ''m'', ''AWS_SQS_QUEUE_URL'' \<mapsto> ''q''],
      sv_s3_fault = (\<lambda>_ _. None), sv_transport = (\<lambda>bs. [Inr bs]),
      sv_converse = (\<lambda>_ _. Inr (demo_reply t)), sv_sqs_fault = (\<lambda>_ _. None),
      sv_workmail = (\<lambda>_. Inl ''MessageNotFound''), sv_parse_mail = (\<lambda>_. Inl ''unparsed''),
      sv_uuid = ''k'', sv_put_fault = (\<lambda>_ _. None),
      sv_parse_json = (\<lambda>_. Inl ''unused''), sv_webhook = (\<lambda>_ _. Inl ''unused'')\<rparr>"

definition demo_pdf :: bytes where
  "demo_pdf = [0x25, 0x50, 0x44, 0x46]"

definition demo_world :: world where
  "demo_world =
     \<lparr>w_s3 = [(''b'', ''k'') \<mapsto> \<lparr>obj_body = demo_pdf, obj_content_type = Some ''application/pdf''\<rparr>],
      w_queue = [], w_posts = [], w_calls = []\<rparr>"

lemmas demo_defs = demo_reply_def demo_services_def demo_world_def

subsection \<open>One record\<close>

text \<open>C7: a record without a bucket name or object key makes the handler panic before it
  issues any call: the world is unchanged and the panic names the missing field.\<close>

theorem process_record_location_missing:
  assumes "s3_bucket_name r = None \<or> s3_object_key r = None"
  shows "process_record sv m q p r w =
           (Inl (Panic (if s3_bucket_name r = None then ''no s3 bucket name'' else ''no s3 object key'')), w)"
  using assms by (auto simp: process_record_def act_simps split: option.splits)

theorem process_record_location_missing_witness:
  "process_record (demo_services '''') ''m'' ''q'' ''P'' \<lparr>s3_bucket_name = Some ''b'', s3_object_key = None\<rparr> demo_world
     = (Inl (Panic ''no s3 object key''), demo_world)"
  using process_record_location_missing
    [of "\<lparr>s3_bucket_name = Some ''b'', s3_object_key = None\<rparr>" "demo_services ''''" "''m''" "''q''" "''P''" demo_world]
  by simp

text \<open>C3: the whole pipeline for one record. When the object is there and streams intact, the
  model answers a message whose first block is text and the queue accepts it, the handler
  makes exactly three calls (fetch, one model call with the prompt and the document, one
  send) and enqueues exactly that text.\<close>

theorem process_record_success:
  assumes loc: "s3_bucket_name r = Some b" "s3_object_key r = Some k"
    and get: "sv_s3_fault sv b k = None" "w_s3 w (b, k) = Some obj"
    and body: "collect (sv_transport sv (obj_body obj)) = Inr (obj_body obj)"
    and msg: "msg = \<lparr>role = User, content = [Text p, Document \<lparr>doc_format = Pdf, doc_name = k,
                                                  doc_source = Some (Bytes (obj_body obj))\<rparr>]\<rparr>"
    and model: "sv_converse sv m msg = Inr resp" "co_output resp = Some (Message reply)"
      "content reply = Text t # rest"
    and send: "sv_sqs_fault sv q t = None"
  shows "process_record sv m q p r w =
           (Inr (), w\<lparr>w_queue := w_queue w @ [(q, t)],
                      w_calls := w_calls w @ [GetObject b k, Converse m msg, SendMessage q t]\<rparr>)"
  using assms
  by (simp add: process_record_located fetch_document_apply validate_output_def
      sqs_send_message_def log_call_def Let_def)

theorem process_record_success_witness:
  "process_record (demo_services ''{}'') ''m'' ''q'' ''P'' \<lparr>s3_bucket_name = Some ''b'', s3_object_key = Some ''k''\<rparr> demo_world
     = (Inr (), demo_world\<lparr>w_queue := [(''q'', ''{}'')],
          w_calls := [GetObject ''b'' ''k'',
                      Converse ''m'' \<lparr>role = User, content = [Text ''P'', Document \<lparr>doc_format = Pdf,
                        doc_name = ''k'', doc_source = Some (Bytes demo_pdf)\<rparr>]\<rparr>,
                      SendMessage ''q'' ''{}'']\<rparr>)"
  using process_record_success
    [of "\<lparr>s3_bucket_name = Some ''b'', s3_object_key = Some ''k''\<rparr>" "''b''" "''k''"
        "demo_services ''{}''" demo_world "\<lparr>obj_body = demo_pdf, obj_content_type = Some ''application/pdf''\<rparr>"
        _ "''P''" "''m''" "demo_reply ''{}''" "\<lparr>role = Assistant, content = [Text ''{}'']\<rparr>" "''{}''" "[]" "''q''"]
  by (simp add: demo_defs)

text \<open>C8: the calls of one record are issued in the pipeline's order and stop at the first
  failure: they are a prefix of fetch, model call, send, where the model call carries the
  prompt first and then, as a PDF named by the key, exactly the bytes the fetch returned;
  a failed fetch is the last call, and a record that succeeds made all three calls.\<close>

theorem process_record_call_order:
  assumes loc: "s3_bucket_name r = Some b" "s3_object_key r = Some k"
    and run: "process_record sv m q p r w = (res, w')"
  shows "\<exists>cs. w_calls w' = w_calls w @ cs \<and> (res = Inr () \<longrightarrow> length cs = 3) \<and>
           (\<exists>t. prefix cs (GetObject b k #
              (case fst (fetch_document sv b k w) of
                 Inl _ \<Rightarrow> []
               | Inr bs \<Rightarrow> [Converse m \<lparr>role = User, content = [Text p, Document \<lparr>doc_format = Pdf,
                                 doc_name = k, doc_source = Some (Bytes bs)\<rparr>]\<rparr>,
                             SendMessage q t])))"
  using run
  by (auto simp: process_record_located [OF loc] sqs_send_message_def Let_def
      split: sum.splits option.splits)

theorem process_record_call_order_witness:
  "\<exists>cs. [GetObject ''b'' ''k'',
          Converse ''m'' \<lparr>role = User, content = [Text ''P'', Document \<lparr>doc_format = Pdf,
            doc_name = ''k'', doc_source = Some (Bytes demo_pdf)\<rparr>]\<rparr>,
          SendMessage ''q'' ''{}''] = [] @ cs \<and> (Inr () = (Inr () :: error + unit) \<longrightarrow> length cs = 3) \<and>
     (\<exists>t. prefix cs (GetObject ''b'' ''k'' #
        (case fst (fetch_document (demo_services ''{}'') ''b'' ''k'' demo_world) of
           Inl _ \<Rightarrow> []
         | Inr bs \<Rightarrow> [Converse ''m'' \<lparr>role = User, content = [Text ''P'', Document \<lparr>doc_format = Pdf,
                           doc_name = ''k'', doc_source = Some (Bytes bs)\<rparr>]\<rparr>,
                       SendMessage ''q'' t])))"
proof -
  have run: "process_record (demo_services ''{}'') ''m'' ''q'' ''P''
               \<lparr>s3_bucket_name = Some ''b'', s3_object_key = Some ''k''\<rparr> demo_world
             = (Inr (), demo_world\<lparr>w_queue := [(''q'', ''{}'')],
                 w_calls := [GetObject ''b'' ''k'',
                   Converse ''m'' \<lparr>role = User, content = [Text ''P'', Document \<lparr>doc_format = Pdf,
                     doc_name = ''k'', doc_source = Some (Bytes demo_pdf)\<rparr>]\<rparr>,
                   SendMessage ''q'' ''{}'']\<rparr>)"
    by (simp add: process_record_def fetch_document_apply bedrock_converse_def sqs_send_message_def
        validate_output_def act_simps demo_defs log_call_def Let_def)
  from process_record_call_order [OF _ _ run] show ?thesis by (simp add: demo_world_def)
qed

text \<open>C9: one record publishes at most one message: exactly one, to the configured queue,
  when it succeeds, and none when it fails; it never touches the S3 objects or the webhook.\<close>

theorem process_record_publishes_once:
  assumes run: "process_record sv m q p r w = (res, w')"
  shows "w_s3 w' = w_s3 w \<and> w_posts w' = w_posts w \<and>
         (res = Inr () \<longrightarrow> (\<exists>t. w_queue w' = w_queue w @ [(q, t)])) \<and>
         (isl res \<longrightarrow> w_queue w' = w_queue w)"
proof -
  have frame: "w_s3 w' = w_s3 w \<and> w_posts w' = w_posts w"
    using run by (rule process_record_s3)
  show ?thesis
  proof (cases "s3_bucket_name r = None \<or> s3_object_key r = None")
    case True
    with run show ?thesis by (auto simp: process_record_def act_simps split: option.splits)
  next
    case False
    then obtain b k where loc: "s3_bucket_name r = Some b" "s3_object_key r = Some k" by auto
    from run frame show ?thesis
      by (auto simp: process_record_located [OF loc] sqs_send_message_def Let_def
          split: sum.splits option.splits)
  qed
qed

theorem process_record_publishes_once_witness:
  "w_s3 (demo_world\<lparr>w_queue := [(''q'', ''{}'')],
        w_calls := [GetObject ''b'' ''k'',
          Converse ''m'' \<lparr>role = User, content = [Text ''P'', Document \<lparr>doc_format = Pdf,
            doc_name = ''k'', doc_source = Some (Bytes demo_pdf)\<rparr>]\<rparr>,
          SendMessage ''q'' ''{}'']\<rparr>) = w_s3 demo_world \<and>
   w_posts (demo_world\<lparr>w_queue := [(''q'', ''{}'')],
        w_calls := [GetObject ''b'' ''k'',
          Converse ''m'' \<lparr>role = User, content = [Text ''P'', Document \<lparr>doc_format = Pdf,
            doc_name = ''k'', doc_source = Some (Bytes demo_pdf)\<rparr>]\<rparr>,
          SendMessage ''q'' ''{}'']\<rparr>) = w_posts demo_world \<and>
   (\<exists>t. w_queue (demo_world\<lparr>w_queue := [(''q'', ''{}'')],
        w_calls := [GetObject ''b'' ''k'',
          Converse ''m'' \<lparr>role = User, content = [Text ''P'', Document \<lparr>doc_format = Pdf,
            doc_name = ''k'', doc_source = Some (Bytes demo_pdf)\<rparr>]\<rparr>,
          SendMessage ''q'' ''{}'']\<rparr>) = w_queue demo_world @ [(''q'', t)])"
proof -
  have run: "process_record (demo_services ''{}'') ''m'' ''q'' ''P''
               \<lparr>s3_bucket_name = Some ''b'', s3_object_key = Some ''k''\<rparr> demo_world
             = (Inr (), demo_world\<lparr>w_queue := [(''q'', ''{}'')],
        w_calls := [GetObject ''b'' ''k'',
          Converse ''m'' \<lparr>role = User, content = [Text ''P'', Document \<lparr>doc_format = Pdf,
            doc_name = ''k'', doc_source = Some (Bytes demo_pdf)\<rparr>]\<rparr>,
          SendMessage ''q'' ''{}'']\<rparr>)"
    by (simp add: process_record_def fetch_document_apply bedrock_converse_def sqs_send_message_def
        validate_output_def act_simps demo_defs log_call_def Let_def)
  from process_record_publishes_once [OF run] show ?thesis by simp
qed

text \<open>C10: fetching returns bytes exactly when there is no service fault, the object exists and
  its body streams without error, and then the bytes are the chunks joined in order.\<close>

theorem fetch_document_Inr_iff:
  "fst (fetch_document sv b k w) = Inr bs \<longleftrightarrow>
     sv_s3_fault sv b k = None \<and>
     (\<exists>obj chunks. w_s3 w (b, k) = Some obj \<and> sv_transport sv (obj_body obj) = map Inr chunks \<and>
                   bs = concat chunks)"
  by (auto simp: fetch_document_apply collect_Inr_iff split: option.splits)

subsection \<open>The batch\<close>

text \<open>
  What a run adds to the world, seen from outside: its result, the calls it issued and the
  messages it enqueued. The specification's batch policy (\<^term>\<open>run_until_failure\<close>)
  processes the records' outcomes in order, keeps the calls and messages of every record
  it reaches, and stops at the first failure with that failure.
\<close>

definition observe ::
  "world \<Rightarrow> (error + unit) \<times> world \<Rightarrow> (error + unit) \<times> call list \<times> (string \<times> string) list" where
  "observe w rw = observe_log w_queue w rw"

text \<open>C1: the batch loop implements the specification's policy: what a run over a list of
  records adds to the world is what the policy computes from the records' separate outcomes.
  Each record is processed as if alone (its outcome depends only on the S3 contents, which
  the handler never changes), records are processed in order, and the first failure ends the
  batch: the records after it issue no call and publish nothing.\<close>

theorem run_records_refines:
  "observe w (run_records sv m q p rs w) =
     run_until_failure (map (\<lambda>r. observe (clean w) (process_record sv m q p r (clean w))) rs)"
  unfolding observe_def
  by (rule foreach_refines [where f = "process_record sv m q p"])
     (auto dest: process_record_s3)

lemma process_record_queue:
  assumes "process_record sv m q p r w = (res, w')"
  shows "(res = Inr () \<longrightarrow> length (w_queue w') = Suc (length (w_queue w))) \<and>
         (isl res \<longrightarrow> w_queue w' = w_queue w)"
proof (cases "s3_bucket_name r = None \<or> s3_object_key r = None")
  case True
  with assms show ?thesis by (auto simp: process_record_def act_simps split: option.splits)
next
  case False
  then obtain b k where loc: "s3_bucket_name r = Some b" "s3_object_key r = Some k" by auto
  from assms show ?thesis
    by (auto simp: process_record_located [OF loc] sqs_send_message_def Let_def
        split: sum.splits option.splits)
qed

lemma run_records_Inr_queue:
  "run_records sv m q p rs w = (Inr (), w') \<Longrightarrow> length (w_queue w') = length (w_queue w) + length rs"
proof (induction rs arbitrary: w)
  case Nil
  then show ?case by (simp add: act_simps)
next
  case (Cons r rs)
  obtain res w1 where pr: "process_record sv m q p r w = (res, w1)" by fastforce
  with Cons.prems have "res = Inr ()" and rest: "run_records sv m q p rs w1 = (Inr (), w')"
    by (auto simp: act_simps split: sum.splits)
  with pr process_record_queue [OF pr] Cons.IH [OF rest] show ?case by simp
qed

text \<open>C2: if the records before \<open>r\<close> all succeed and \<open>r\<close> fails, the batch fails with
  \<open>r\<close>'s error in the world \<open>r\<close> left: nothing of the records after it happens, and
  exactly one message per earlier record has been published.\<close>

theorem run_records_first_failure:
  assumes ok: "run_records sv m q p rs1 w = (Inr (), w1)"
    and fail: "process_record sv m q p r w1 = (Inl e, w2)"
  shows "run_records sv m q p (rs1 @ r # rs2) w = (Inl e, w2) \<and>
         length (w_queue w2) = length (w_queue w) + length rs1"
proof
  show "run_records sv m q p (rs1 @ r # rs2) w = (Inl e, w2)"
    using ok fail by (simp add: run_records_append act_simps)
  have "w_queue w2 = w_queue w1" using process_record_queue [OF fail] by simp
  with run_records_Inr_queue [OF ok] show "length (w_queue w2) = length (w_queue w) + length rs1"
    by simp
qed

theorem run_records_first_failure_witness:
  "run_records (demo_services ''{}'') ''m'' ''q'' ''P''
     ([\<lparr>s3_bucket_name = Some ''b'', s3_object_key = Some ''k''\<rparr>] @
      \<lparr>s3_bucket_name = Some ''b'', s3_object_key = None\<rparr> #
      [\<lparr>s3_bucket_name = Some ''b'', s3_object_key = Some ''k''\<rparr>]) demo_world
   = (Inl (Panic ''no s3 object key''),
      demo_world\<lparr>w_queue := [(''q'', ''{}'')],
        w_calls := [GetObject ''b'' ''k'',
          Converse ''m'' \<lparr>role = User, content = [Text ''P'', Document \<lparr>doc_format = Pdf,
            doc_name = ''k'', doc_source = Some (Bytes demo_pdf)\<rparr>]\<rparr>,
          SendMessage ''q'' ''{}'']\<rparr>) \<and>
   length (w_queue (demo_world\<lparr>w_queue := [(''q'', ''{}'')],
        w_calls := [GetObject ''b'' ''k'',
          Converse ''m'' \<lparr>role = User, content = [Text ''P'', Document \<lparr>doc_format = Pdf,
            doc_name = ''k'', doc_source = Some (Bytes demo_pdf)\<rparr>]\<rparr>,
          SendMessage ''q'' ''{}'']\<rparr>)) = length (w_queue demo_world) + length [\<lparr>s3_bucket_name = Some ''b'', s3_object_key = Some ''k''\<rparr>]"
proof -
  have ok: "run_records (demo_services ''{}'') ''m'' ''q'' ''P''
      [\<lparr>s3_bucket_name = Some ''b'', s3_object_key = Some ''k''\<rparr>] demo_world
    = (Inr (), demo_world\<lparr>w_queue := [(''q'', ''{}'')],
        w_calls := [GetObject ''b'' ''k'',
          Converse ''m'' \<lparr>role = User, content = [Text ''P'', Document \<lparr>doc_format = Pdf,
            doc_name = ''k'', doc_source = Some (Bytes demo_pdf)\<rparr>]\<rparr>,
          SendMessage ''q'' ''{}'']\<rparr>)"
    by (simp add: process_record_def fetch_document_apply bedrock_converse_def sqs_send_message_def
        validate_output_def act_simps demo_defs log_call_def Let_def)
  have fail: "process_record (demo_services ''{}'') ''m'' ''q'' ''P''
      \<lparr>s3_bucket_name = Some ''b'', s3_object_key = None\<rparr>
      (demo_world\<lparr>w_queue := [(''q'', ''{}'')],
        w_calls := [GetObject ''b'' ''k'',
          Converse ''m'' \<lparr>role = User, content = [Text ''P'', Document \<lparr>doc_format = Pdf,
            doc_name = ''k'', doc_source = Some (Bytes demo_pdf)\<rparr>]\<rparr>,
          SendMessage ''q'' ''{}'']\<rparr>)
    = (Inl (Panic ''no s3 object key''), demo_world\<lparr>w_queue := [(''q'', ''{}'')],
        w_calls := [GetObject ''b'' ''k'',
          Converse ''m'' \<lparr>role = User, content = [Text ''P'', Document \<lparr>doc_format = Pdf,
            doc_name = ''k'', doc_source = Some (Bytes demo_pdf)\<rparr>]\<rparr>,
          SendMessage ''q'' ''{}'']\<rparr>)"
    by (simp add: process_record_def act_simps)
  from run_records_first_failure [OF ok fail] show ?thesis .
qed

subsection \<open>The handler\<close>

text \<open>C11: the model id and the queue URL are read before anything else; if either is not
  set the handler panics naming it, before any call and with the world unchanged.\<close>

theorem function_handler_config_missing:
  assumes "sv_env sv ''AWS_BEDROCK_MODEL'' = None \<or> sv_env sv ''AWS_SQS_QUEUE_URL'' = None"
  shows "function_handler schema sv ev w =
           (Inl (Panic (if sv_env sv ''AWS_BEDROCK_MODEL'' = None then ''AWS_BEDROCK_MODEL not set''
                        else ''AWS_SQS_QUEUE_URL not set'')), w)"
  using assms by (auto simp: function_handler_def env_expect_def act_simps split: option.splits)

theorem function_handler_config_missing_witness:
  "function_handler ''{}'' ((demo_services ''{}'')\<lparr>sv_env := [''AWS_BEDROCK_MODEL'' \<mapsto> ''m'']\<rparr>)
     \<lparr>s3_records = []\<rparr> demo_world = (Inl (Panic ''AWS_SQS_QUEUE_URL not set''), demo_world)"
  using function_handler_config_missing
    [of "(demo_services ''{}'')\<lparr>sv_env := [''AWS_BEDROCK_MODEL'' \<mapsto> ''m'']\<rparr>" "''{}''"
        "\<lparr>s3_records = []\<rparr>" demo_world]
  by simp

lemma str_containsI: "s = a @ t @ b \<Longrightarrow> str_contains s t"
  by simp

text \<open>C13: the prompt embeds the schema verbatim on lines of its own, states the three
  default-value rules and the single-line minified JSON directive verbatim, and is
  determined by the schema: different schemas give different prompts.\<close>

theorem build_prompt_contents:
  "str_contains (build_prompt schema) (newline @ schema @ newline) \<and>
   str_contains (build_prompt schema)
     (newline @ ''- If you cannot determine the amount for a document DO NOT try to guess use 0'' @ newline) \<and>
   str_contains (build_prompt schema)
     (newline @ ''- If you cannot determine a date field for the document DO NOT try to guess use today'' @
      [CHR 0x27] @ ''s date'' @ newline) \<and>
   str_contains (build_prompt schema)
     (newline @ ''- If you cannot determine the value for any other property DO NOT try to guess use '' @
      [CHR 0x27] @ ''Unknown'' @ [CHR 0x27] @ newline) \<and>
   suffix (newline @ ''- Return ONLY a single-line, minified JSON object with no whitespace, no newlines, '' @
           ''no indentation, and no additional text'') (build_prompt schema) \<and>
   (build_prompt schema = build_prompt schema' \<longleftrightarrow> schema = schema')"
proof (intro conjI)
  show "str_contains (build_prompt schema) (newline @ schema @ newline)"
    by (rule str_containsI [of _ "''Analyze this bill/invoice PDF and extract information from each one.'' @
        newline @ newline @ ''Return your response as a JSON object that conforms to this JSON schema:''"])
      (simp add: build_prompt_def prompt_intro_def prompt_rules_def)
  show "str_contains (build_prompt schema)
     (newline @ ''- If you cannot determine the amount for a document DO NOT try to guess use 0'' @ newline)"
    by (rule str_containsI [of _ "prompt_intro @ schema @ newline @ newline @ ''Rules:''"])
      (simp add: build_prompt_def prompt_rules_def rule_amount_def)
  show "str_contains (build_prompt schema)
     (newline @ ''- If you cannot determine a date field for the document DO NOT try to guess use today'' @
      [CHR 0x27] @ ''s date'' @ newline)"
    by (rule str_containsI [of _ "prompt_intro @ schema @ newline @ newline @ ''Rules:'' @ newline @ rule_amount"])
      (simp add: build_prompt_def prompt_rules_def rule_date_def apostrophe_def)
  show "str_contains (build_prompt schema)
     (newline @ ''- If you cannot determine the value for any other property DO NOT try to guess use '' @
      [CHR 0x27] @ ''Unknown'' @ [CHR 0x27] @ newline)"
    by (rule str_containsI [of _ "prompt_intro @ schema @ newline @ newline @ ''Rules:'' @ newline @ rule_amount
        @ newline @ rule_date"])
      (simp add: build_prompt_def prompt_rules_def rule_other_def apostrophe_def)
  show "suffix (newline @ ''- Return ONLY a single-line, minified JSON object with no whitespace, no newlines, '' @
           ''no indentation, and no additional text'') (build_prompt schema)"
    by (simp add: suffix_def build_prompt_def prompt_rules_def rule_format_def)
  show "build_prompt schema = build_prompt schema' \<longleftrightarrow> schema = schema'"
    by (simp add: build_prompt_def)
qed

lemma local_io_calls:
  assumes "local_io f" "f w = (r, w')"
  shows "w_calls w' = w_calls w @ drop (length (w_calls w)) (w_calls w')"
proof -
  obtain r0 d where "f (clean w) = (r0, d)" by fastforce
  with local_ioD [OF assms(1), of w] assms(2) have "w' = world_extend w d" by simp
  then show ?thesis by simp
qed

lemma process_record_converse_calls:
  assumes run: "process_record sv m q p r w = (res, w')"
    and c: "Converse mid msg \<in> set (drop (length (w_calls w)) (w_calls w'))"
  shows "mid = m \<and> (\<exists>k bs. s3_object_key r = Some k \<and>
           msg = \<lparr>role = User, content = [Text p, Document \<lparr>doc_format = Pdf, doc_name = k,
                                                         doc_source = Some (Bytes bs)\<rparr>]\<rparr>)"
proof (cases "s3_bucket_name r = None \<or> s3_object_key r = None")
  case True
  with run c show ?thesis by (auto simp: process_record_def act_simps split: option.splits)
next
  case False
  then obtain b k where loc: "s3_bucket_name r = Some b" "s3_object_key r = Some k" by auto
  from run c loc show ?thesis
    by (auto simp: process_record_located [OF loc] sqs_send_message_def Let_def
        split: sum.splits option.splits)
qed

lemma run_records_converse_calls:
  assumes "run_records sv m q p rs w = (res, w')"
    and "Converse mid msg \<in> set (drop (length (w_calls w)) (w_calls w'))"
  shows "mid = m \<and> (\<exists>r \<in> set rs. \<exists>k bs. s3_object_key r = Some k \<and>
           msg = \<lparr>role = User, content = [Text p, Document \<lparr>doc_format = Pdf, doc_name = k,
                                                         doc_source = Some (Bytes bs)\<rparr>]\<rparr>)"
  using assms
proof (induction rs arbitrary: w)
  case Nil
  then show ?case by (simp add: act_simps)
next
  case (Cons r rs)
  obtain res1 w1 where pr: "process_record sv m q p r w = (res1, w1)" by fastforce
  have w1: "w_calls w1 = w_calls w @ drop (length (w_calls w)) (w_calls w1)"
    by (rule local_io_calls [OF local_io_process_record pr])
  show ?case
  proof (cases res1)
    case (Inl e)
    with pr Cons.prems have "w' = w1" by (simp add: act_simps)
    with process_record_converse_calls [OF pr] Cons.prems(2) show ?thesis by auto
  next
    case (Inr u)
    with pr Cons.prems(1) have rest: "run_records sv m q p rs w1 = (res, w')" by (simp add: act_simps)
    have w': "w_calls w' = w_calls w1 @ drop (length (w_calls w1)) (w_calls w')"
      by (rule local_io_calls [OF local_io_run_records rest])
    have "drop (length (w_calls w)) (w_calls w') =
          drop (length (w_calls w)) (w_calls w1) @ drop (length (w_calls w1)) (w_calls w')"
      using w1 w' by (metis append_assoc append_eq_conv_conj)
    with Cons.prems(2) consider
        "Converse mid msg \<in> set (drop (length (w_calls w)) (w_calls w1))"
      | "Converse mid msg \<in> set (drop (length (w_calls w1)) (w_calls w'))" by auto
    then show ?thesis
    proof cases
      case 1
      with process_record_converse_calls [OF pr] show ?thesis by auto
    next
      case 2
      with Cons.IH [OF rest] show ?thesis by auto
    qed
  qed
qed

text \<open>C14: every model call an invocation makes uses the configured model id and one user
  turn of exactly two blocks: the one prompt built from the schema, then a PDF document
  named by the object key of one of the event's records.\<close>

theorem function_handler_model_calls:
  assumes run: "function_handler schema sv ev w = (res, w')"
    and c: "Converse mid msg \<in> set (drop (length (w_calls w)) (w_calls w'))"
  shows "sv_env sv ''AWS_BEDROCK_MODEL'' = Some mid \<and>
         (\<exists>r \<in> set (s3_records ev). \<exists>k bs. s3_object_key r = Some k \<and>
            msg = \<lparr>role = User, content = [Text (build_prompt schema), Document \<lparr>doc_format = Pdf,
                     doc_name = k, doc_source = Some (Bytes bs)\<rparr>]\<rparr>)"
proof (cases "sv_env sv ''AWS_BEDROCK_MODEL'' = None \<or> sv_env sv ''AWS_SQS_QUEUE_URL'' = None")
  case True
  with run c show ?thesis
    by (auto simp: function_handler_def env_expect_def act_simps split: option.splits)
next
  case False
  then obtain mdl url where env: "sv_env sv ''AWS_BEDROCK_MODEL'' = Some mdl"
      "sv_env sv ''AWS_SQS_QUEUE_URL'' = Some url" by auto
  with run have "run_records sv mdl url (build_prompt schema) (s3_records ev) w = (res, w')"
    by (simp add: function_handler_def env_expect_def act_simps)
  from run_records_converse_calls [OF this c] env show ?thesis by auto
qed

theorem function_handler_model_calls_witness:
  "sv_env (demo_services ''{}'') ''AWS_BEDROCK_MODEL'' = Some ''m'' \<and>
   (\<exists>r \<in> set [\<lparr>s3_bucket_name = Some ''b'', s3_object_key = Some ''k''\<rparr>]. \<exists>k bs. s3_object_key r = Some k \<and>
      \<lparr>role = User, content = [Text (build_prompt ''{}''), Document \<lparr>doc_format = Pdf,
         doc_name = ''k'', doc_source = Some (Bytes demo_pdf)\<rparr>]\<rparr>
      = \<lparr>role = User, content = [Text (build_prompt ''{}''), Document \<lparr>doc_format = Pdf,
         doc_name = k, doc_source = Some (Bytes bs)\<rparr>]\<rparr>)"
proof -
  have run: "function_handler ''{}'' (demo_services ''{}'')
      \<lparr>s3_records = [\<lparr>s3_bucket_name = Some ''b'', s3_object_key = Some ''k''\<rparr>]\<rparr> demo_world
    = (Inr (), demo_world\<lparr>w_queue := [(''q'', ''{}'')],
        w_calls := [GetObject ''b'' ''k'',
          Converse ''m'' \<lparr>role = User, content = [Text (build_prompt ''{}''), Document \<lparr>doc_format = Pdf,
            doc_name = ''k'', doc_source = Some (Bytes demo_pdf)\<rparr>]\<rparr>,
          SendMessage ''q'' ''{}'']\<rparr>)"
    by (simp add: function_handler_def env_expect_def process_record_def fetch_document_apply
        bedrock_converse_def sqs_send_message_def validate_output_def act_simps demo_defs log_call_def
        Let_def)
  have c: "Converse ''m'' \<lparr>role = User, content = [Text (build_prompt ''{}''), Document \<lparr>doc_format = Pdf,
            doc_name = ''k'', doc_source = Some (Bytes demo_pdf)\<rparr>]\<rparr>
      \<in> set (drop (length (w_calls demo_world)) (w_calls (demo_world\<lparr>w_queue := [(''q'', ''{}'')],
        w_calls := [GetObject ''b'' ''k'',
          Converse ''m'' \<lparr>role = User, content = [Text (build_prompt ''{}''), Document \<lparr>doc_format = Pdf,
            doc_name = ''k'', doc_source = Some (Bytes demo_pdf)\<rparr>]\<rparr>,
          SendMessage ''q'' ''{}'']\<rparr>)))"
    by (simp add: demo_world_def)
  from function_handler_model_calls [OF run c] show ?thesis by simp
qed

end
