(* ===== verification/Mail_Handler.thy ===== *)
theory Mail_Handler
  imports World
begin

text \<open>
  The upstream handler, \<open>src/mail-handler/src/event_handler.rs\<close>: a WorkMail flow
  event names an in-flight message; the handler reads the S3 bucket from the environment,
  fetches the raw message (\<open>workmail_get_raw_message_content\<close>), aggregates and parses it
  (\<open>collect\<close>, \<open>parse_mail\<close>), looks for the first direct subpart that has a
  \<open>Content-Type\<close> header whose value contains \<open>application/pdf\<close>
  (\<open>find_attachment\<close>), and stores that part's decoded body at a fresh UUIDv7 key with
  content type \<open>application/pdf\<close> (\<open>s3_put_object\<close>). The store is what the
  attachment handler's notifications point at.
\<close>

subsection \<open>The event (lines 7--15)\<close>

record work_mail_event =
  summary_version :: string
  subject :: string
  message_id :: string
  invocation_id :: string
  flow_direction :: string

subsection \<open>Parsing and the attachment search (lines 36--47)\<close>

text \<open>\<open>mailparse::parse_mail(&raw)?\<close> and \<open>get_body_raw()?\<close>: the library's outcomes,
  their failures converted to the boxed \<open>MailParseError\<close>.\<close>

definition parse_mail :: "services \<Rightarrow> bytes \<Rightarrow> error + parsed_mail" where
  "parse_mail sv raw_message =
     (case sv_parse_mail sv raw_message of Inl e \<Rightarrow> Inl (MailParseError e) | Inr p \<Rightarrow> Inr p)"

definition get_body_raw :: "parsed_mail \<Rightarrow> error + bytes" where
  "get_body_raw part = (case pm_body_raw part of Inl e \<Rightarrow> Inl (MailParseError e) | Inr b \<Rightarrow> Inr b)"

text \<open>The closure of the \<open>find\<close>: some header whose key is exactly \<open>Content-Type\<close> and
  whose value contains \<open>application/pdf\<close>.\<close>

definition is_pdf_part :: "parsed_mail \<Rightarrow> bool" where
  "is_pdf_part x \<longleftrightarrow>
     list_ex (\<lambda>h. hdr_key h = ''Content-Type'' \<and> str_contains (hdr_value h) ''application/pdf'')
       (pm_headers x)"

definition find_attachment :: "parsed_mail \<Rightarrow> parsed_mail option" where
  "find_attachment parsed = find is_pdf_part (pm_subparts parsed)"

subsection \<open>The handler (lines 17--60)\<close>

definition function_handler_mail :: "services \<Rightarrow> work_mail_event \<Rightarrow> unit io" where
  "function_handler_mail sv payload =
     bind_act (env_expect sv ''AWS_S3_BUCKET'' ''AWS_S3_BUCKET not set'') (\<lambda>s3_bucket.
     bind_act (workmail_get_raw_message_content sv (message_id payload)) (\<lambda>message_stream.
     bind_act (lift (collect message_stream)) (\<lambda>raw_message.
     bind_act (lift (parse_mail sv raw_message)) (\<lambda>parsed.
     (case find_attachment parsed of
        None \<Rightarrow> throw (StrError ''no attachment found'')
      | Some attachment \<Rightarrow>
          bind_act (lift (get_body_raw attachment)) (\<lambda>attachment_body.
          s3_put_object sv s3_bucket (sv_uuid sv) ''application/pdf'' attachment_body))))))"

section \<open>Properties\<close>

lemma is_pdf_part_iff:
  "is_pdf_part x \<longleftrightarrow>
     (\<exists>h \<in> set (pm_headers x). hdr_key h = ''Content-Type'' \<and> str_contains (hdr_value h) ''application/pdf'')"
  by (simp add: is_pdf_part_def list_ex_iff)

lemma find_append_first: "(\<forall>x \<in> set pre. \<not> P x) \<Longrightarrow> P a \<Longrightarrow> find P (pre @ a # post) = Some a"
  by (induction pre) auto

text \<open>The handler once the bucket is configured, as straight-line cases.\<close>

lemma function_handler_mail_apply:
  assumes "sv_env sv ''AWS_S3_BUCKET'' = Some bucket"
  shows "function_handler_mail sv ev w =
    (let w1 = log_call (GetRawMessageContent (message_id ev)) w in
     case sv_workmail sv (message_id ev) of
       Inl e \<Rightarrow> (Inl (GetRawMessageContentError e), w1)
     | Inr raw \<Rightarrow>
        (case collect (sv_transport sv raw) of
           Inl e \<Rightarrow> (Inl e, w1)
         | Inr raw_message \<Rightarrow>
            (case parse_mail sv raw_message of
               Inl e \<Rightarrow> (Inl e, w1)
             | Inr parsed \<Rightarrow>
                (case find_attachment parsed of
                   None \<Rightarrow> (Inl (StrError ''no attachment found''), w1)
                 | Some a \<Rightarrow>
                    (case get_body_raw a of
                       Inl e \<Rightarrow> (Inl e, w1)
                     | Inr body \<Rightarrow> s3_put_object sv bucket (sv_uuid sv) ''application/pdf'' body w1)))))"
  using assms
  by (simp add: function_handler_mail_def env_expect_def workmail_get_raw_message_content_def act_simps
      Let_def split: sum.splits option.splits)

lemma function_handler_mail_no_bucket:
  "sv_env sv ''AWS_S3_BUCKET'' = None \<Longrightarrow>
     function_handler_mail sv ev w = (Inl (Panic ''AWS_S3_BUCKET not set''), w)"
  by (simp add: function_handler_mail_def env_expect_def act_simps)

subsection \<open>A fixture for the witnesses\<close>

text \<open>
  A mail with a plain-text part and a PDF part, bucket \<open>bills\<close>, and a fresh key; the
  variant \<open>demo_mail_lower\<close> spells the PDF part's header key in lower case, and
  \<open>demo_mail_nested\<close> puts the PDF part one level deeper, inside a
  \<open>multipart/mixed\<close> subpart.
\<close>

definition demo_text_part :: parsed_mail where
  "demo_text_part = ParsedMail [\<lparr>hdr_key = ''Content-Type'', hdr_value = ''text/plain''\<rparr>] (Inr [0x68, 0x69]) []"

definition demo_pdf_part :: "string \<Rightarrow> parsed_mail" where
  "demo_pdf_part key =
     ParsedMail [\<lparr>hdr_key = key, hdr_value = ''application/pdf; name=bill.pdf''\<rparr>] (Inr [0x25, 0x50]) []"

definition demo_mail :: parsed_mail where
  "demo_mail =
     ParsedMail [\<lparr>hdr_key = ''Content-Type'', hdr_value = ''multipart/mixed''\<rparr>] (Inr [])
       [demo_text_part, demo_pdf_part ''Content-Type'']"

definition demo_mail_lower :: parsed_mail where
  "demo_mail_lower =
     ParsedMail [\<lparr>hdr_key = ''Content-Type'', hdr_value = ''multipart/mixed''\<rparr>] (Inr [])
       [demo_text_part, demo_pdf_part ''content-type'']"

definition demo_mail_nested :: parsed_mail where
  "demo_mail_nested =
     ParsedMail [\<lparr>hdr_key = ''Content-Type'', hdr_value = ''multipart/mixed''\<rparr>] (Inr [])
       [ParsedMail [\<lparr>hdr_key = ''Content-Type'', hdr_value = ''multipart/mixed''\<rparr>] (Inr [])
          [demo_pdf_part ''Content-Type'']]"

definition demo_mail_services :: "parsed_mail \<Rightarrow> services" where
  "demo_mail_services mail =
     \<lparr>sv_env = [''AWS_S3_BUCKET'' \<mapsto> ''bills''],
      sv_s3_fault = (\<lambda>_ _. None), sv_transport = (\<lambda>bs. [Inr bs]),
      sv_converse = (\<lambda>_ _. Inl ''unused''), sv_sqs_fault = (\<lambda>_ _. None),
      sv_workmail = (\<lambda>_. Inr [0x4D]), sv_parse_mail = (\<lambda>_. Inr mail),
      sv_uuid = ''0190a1b2-uuid'', sv_put_fault = (\<lambda>_ _. None),
      sv_parse_json = (\<lambda>_. Inl ''unused''), sv_webhook = (\<lambda>_ _. Inl ''unused'')\<rparr>"

definition demo_mail_event :: work_mail_event where
  "demo_mail_event =
     \<lparr>summary_version = ''2019-07-28'', subject = ''Invoice'', message_id = ''msg-1'',
      invocation_id = ''inv-1'', flow_direction = ''INBOUND''\<rparr>"

definition empty_world :: world where
  "empty_world = \<lparr>w_s3 = Map.empty, w_queue = [], w_posts = [], w_calls = []\<rparr>"

lemmas demo_mail_defs = demo_text_part_def demo_pdf_part_def demo_mail_def demo_mail_lower_def
  demo_mail_nested_def demo_mail_services_def demo_mail_event_def empty_world_def

text \<open>C15: when the raw message arrives intact and parses, and \<open>a\<close> is the first direct
  subpart with a \<open>Content-Type\<close> header naming \<open>application/pdf\<close>, the handler makes
  two calls (fetch the message, store the object) and stores exactly \<open>a\<close>'s decoded body at
  the fresh key in the configured bucket, typed \<open>application/pdf\<close>; nothing else changes.\<close>

theorem function_handler_mail_stores_attachment:
  assumes env: "sv_env sv ''AWS_S3_BUCKET'' = Some bucket"
    and raw: "sv_workmail sv (message_id ev) = Inr raw" "collect (sv_transport sv raw) = Inr raw"
    and parse: "sv_parse_mail sv raw = Inr parsed"
    and first: "pm_subparts parsed = pre @ a # post"
      "\<forall>x \<in> set pre. \<forall>h \<in> set (pm_headers x).
         hdr_key h = ''Content-Type'' \<longrightarrow> \<not> str_contains (hdr_value h) ''application/pdf''"
      "\<exists>h \<in> set (pm_headers a). hdr_key h = ''Content-Type'' \<and> str_contains (hdr_value h) ''application/pdf''"
    and body: "pm_body_raw a = Inr body"
    and put: "sv_put_fault sv bucket (sv_uuid sv) = None"
  shows "function_handler_mail sv ev w =
           (Inr (), w\<lparr>w_s3 := (w_s3 w)((bucket, sv_uuid sv) \<mapsto>
                         \<lparr>obj_body = body, obj_content_type = Some ''application/pdf''\<rparr>),
                      w_calls := w_calls w @ [GetRawMessageContent (message_id ev),
                                              PutObject bucket (sv_uuid sv) ''application/pdf'']\<rparr>)"
proof -
  have "find_attachment parsed = Some a"
    unfolding find_attachment_def first(1)
    by (rule find_append_first) (use first(2,3) in \<open>auto simp: is_pdf_part_iff\<close>)
  with assms show ?thesis
    by (simp add: function_handler_mail_apply parse_mail_def get_body_raw_def s3_put_object_def
        log_call_def Let_def)
qed

text \<open>C16: when no direct subpart declares \<open>application/pdf\<close>, the handler fails with
  \<open>no attachment found\<close> after fetching the message, and stores nothing.\<close>

theorem function_handler_mail_no_attachment:
  assumes env: "sv_env sv ''AWS_S3_BUCKET'' = Some bucket"
    and raw: "sv_workmail sv (message_id ev) = Inr raw" "collect (sv_transport sv raw) = Inr raw"
    and parse: "sv_parse_mail sv raw = Inr parsed"
    and none: "\<forall>x \<in> set (pm_subparts parsed). \<forall>h \<in> set (pm_headers x).
                 hdr_key h = ''Content-Type'' \<longrightarrow> \<not> str_contains (hdr_value h) ''application/pdf''"
  shows "function_handler_mail sv ev w =
           (Inl (StrError ''no attachment found''), w\<lparr>w_calls := w_calls w @ [GetRawMessageContent (message_id ev)]\<rparr>)"
proof -
  have "find_attachment parsed = None"
    using none by (auto simp: find_attachment_def find_None_iff is_pdf_part_iff)
  with assms show ?thesis
    by (simp add: function_handler_mail_apply parse_mail_def log_call_def Let_def)
qed

theorem function_handler_mail_stores_attachment_witness:
  "function_handler_mail (demo_mail_services demo_mail) demo_mail_event empty_world =
     (Inr (), empty_world\<lparr>w_s3 := (w_s3 empty_world)((''bills'', ''0190a1b2-uuid'') \<mapsto>
                         \<lparr>obj_body = [0x25, 0x50], obj_content_type = Some ''application/pdf''\<rparr>),
                      w_calls := w_calls empty_world @ [GetRawMessageContent ''msg-1'',
                                              PutObject ''bills'' ''0190a1b2-uuid'' ''application/pdf'']\<rparr>)"
  using function_handler_mail_stores_attachment
    [of "demo_mail_services demo_mail" "''bills''" demo_mail_event "[0x4D]" demo_mail "[demo_text_part]"
        "demo_pdf_part ''Content-Type''" "[]" "[0x25, 0x50]" empty_world]
  by (simp add: demo_mail_defs str_contains_eval)

theorem function_handler_mail_no_attachment_witness:
  "function_handler_mail (demo_mail_services demo_mail_nested) demo_mail_event empty_world =
     (Inl (StrError ''no attachment found''), empty_world\<lparr>w_calls := w_calls empty_world @ [GetRawMessageContent ''msg-1'']\<rparr>)"
  using function_handler_mail_no_attachment
    [of "demo_mail_services demo_mail_nested" "''bills''" demo_mail_event "[0x4D]" demo_mail_nested empty_world]
  by (simp add: demo_mail_defs str_contains_eval)

text \<open>C17: the mail handler touches the world only through its two calls: it never enqueues
  or posts anything, it leaves S3 unchanged when it fails, and when it succeeds it has
  written exactly one object, a PDF at the fresh key of the configured bucket.\<close>

theorem function_handler_mail_writes_only_on_success:
  assumes run: "function_handler_mail sv ev w = (res, w')"
  shows "w_queue w' = w_queue w \<and> w_posts w' = w_posts w \<and>
         (isl res \<longrightarrow> w_s3 w' = w_s3 w) \<and>
         (res = Inr () \<longrightarrow> (\<exists>bucket body. sv_env sv ''AWS_S3_BUCKET'' = Some bucket \<and>
            w_s3 w' = (w_s3 w)((bucket, sv_uuid sv) \<mapsto>
                                 \<lparr>obj_body = body, obj_content_type = Some ''application/pdf''\<rparr>)))"
proof (cases "sv_env sv ''AWS_S3_BUCKET''")
  case None
  with run show ?thesis by (auto simp: function_handler_mail_no_bucket)
next
  case (Some bucket)
  from run Some show ?thesis
    by (auto simp: function_handler_mail_apply [OF Some] s3_put_object_def Let_def
        split: sum.splits option.splits)
qed

theorem function_handler_mail_writes_only_on_success_witness:
  "w_queue (empty_world\<lparr>w_s3 := (w_s3 empty_world)((''bills'', ''0190a1b2-uuid'') \<mapsto>
                         \<lparr>obj_body = [0x25, 0x50], obj_content_type = Some ''application/pdf''\<rparr>),
                      w_calls := [GetRawMessageContent ''msg-1'',
                                  PutObject ''bills'' ''0190a1b2-uuid'' ''application/pdf'']\<rparr>) = w_queue empty_world \<and>
   (\<exists>bucket body. sv_env (demo_mail_services demo_mail) ''AWS_S3_BUCKET'' = Some bucket \<and>
      (w_s3 empty_world)((''bills'', ''0190a1b2-uuid'') \<mapsto>
                         \<lparr>obj_body = [0x25, 0x50], obj_content_type = Some ''application/pdf''\<rparr>)
      = (w_s3 empty_world)((bucket, ''0190a1b2-uuid'') \<mapsto>
                            \<lparr>obj_body = body, obj_content_type = Some ''application/pdf''\<rparr>))"
proof -
  have run: "function_handler_mail (demo_mail_services demo_mail) demo_mail_event empty_world =
     (Inr (), empty_world\<lparr>w_s3 := (w_s3 empty_world)((''bills'', ''0190a1b2-uuid'') \<mapsto>
                         \<lparr>obj_body = [0x25, 0x50], obj_content_type = Some ''application/pdf''\<rparr>),
                      w_calls := [GetRawMessageContent ''msg-1'',
                                  PutObject ''bills'' ''0190a1b2-uuid'' ''application/pdf'']\<rparr>)"
    by (simp add: function_handler_mail_def env_expect_def workmail_get_raw_message_content_def
        parse_mail_def find_attachment_def is_pdf_part_def get_body_raw_def s3_put_object_def
        act_simps log_call_def Let_def demo_mail_defs str_contains_eval)
  from function_handler_mail_writes_only_on_success [OF run] show ?thesis
    by (simp add: demo_mail_services_def)
qed

text \<open>C18: the header key is compared with \<open>==\<close>, byte for byte, although header field
  names are case-insensitive in mail: a message whose PDF part says \<open>content-type\<close>
  is rejected as having no attachment, and nothing is stored.\<close>

theorem function_handler_mail_header_key_case_sensitive:
  assumes env: "sv_env sv ''AWS_S3_BUCKET'' = Some bucket"
    and raw: "sv_workmail sv (message_id ev) = Inr raw" "collect (sv_transport sv raw) = Inr raw"
    and parse: "sv_parse_mail sv raw = Inr parsed"
    and parts: "pm_subparts parsed =
       [ParsedMail [\<lparr>hdr_key = ''content-type'', hdr_value = ''application/pdf''\<rparr>] (Inr body) []]"
  shows "function_handler_mail sv ev w =
           (Inl (StrError ''no attachment found''), w\<lparr>w_calls := w_calls w @ [GetRawMessageContent (message_id ev)]\<rparr>)"
  using assms
  by (simp add: function_handler_mail_apply parse_mail_def find_attachment_def is_pdf_part_def
      log_call_def Let_def)

theorem function_handler_mail_header_key_case_sensitive_witness:
  "function_handler_mail ((demo_mail_services demo_mail)\<lparr>sv_parse_mail := (\<lambda>_. Inr
       (ParsedMail [] (Inr []) [ParsedMail [\<lparr>hdr_key = ''content-type'', hdr_value = ''application/pdf''\<rparr>] (Inr [0x25]) []]))\<rparr>)
     demo_mail_event empty_world =
   (Inl (StrError ''no attachment found''), empty_world\<lparr>w_calls := w_calls empty_world @ [GetRawMessageContent ''msg-1'']\<rparr>)"
  using function_handler_mail_header_key_case_sensitive
    [of "(demo_mail_services demo_mail)\<lparr>sv_parse_mail := (\<lambda>_. Inr
       (ParsedMail [] (Inr []) [ParsedMail [\<lparr>hdr_key = ''content-type'', hdr_value = ''application/pdf''\<rparr>] (Inr [0x25]) []]))\<rparr>"
        "''bills''" demo_mail_event "[0x4D]"
        "ParsedMail [] (Inr []) [ParsedMail [\<lparr>hdr_key = ''content-type'', hdr_value = ''application/pdf''\<rparr>] (Inr [0x25]) []]"
        "[0x25]" empty_world]
  by (simp add: demo_mail_defs)

text \<open>C19: the configured bucket is read first: without \<open>AWS_S3_BUCKET\<close> the handler
  panics before fetching the message.\<close>

theorem function_handler_mail_config_missing:
  "sv_env sv ''AWS_S3_BUCKET'' = None \<longrightarrow>
     function_handler_mail sv ev w = (Inl (Panic ''AWS_S3_BUCKET not set''), w)"
  by (simp add: function_handler_mail_def env_expect_def act_simps)

theorem function_handler_mail_config_missing_witness:
  "function_handler_mail ((demo_mail_services demo_mail)\<lparr>sv_env := Map.empty\<rparr>) demo_mail_event empty_world
     = (Inl (Panic ''AWS_S3_BUCKET not set''), empty_world)"
  using function_handler_mail_config_missing
    [of "(demo_mail_services demo_mail)\<lparr>sv_env := Map.empty\<rparr>" demo_mail_event empty_world]
  by simp

end
