(* ===== verification/Serde_Json.thy ===== *)
theory Serde_Json
  imports Json
begin

text \<open>
  What the message handler sends: \<open>reqwest::RequestBuilder::json(&body)\<close> serialises the
  Discord message with \<open>serde_json::to_vec\<close>. \<open>#[derive(Serialize)]\<close> turns a struct into
  serde's data model (strings, booleans, sequences, structs with their fields in declaration
  order), modelled by the datatype \<open>ser\<close>; serde_json's compact formatter prints it with no
  whitespace (\<open>ser_print\<close>), escaping each string byte by byte as
  \<open>format_escaped_str_contents\<close> does: \<open>"\<close> and backslash, the five short escapes
  \<open>\b \t \n \f \r\<close>, and \<open>\u00XX\<close> with lower-case hex digits for the other control
  bytes. Strings are byte strings (UTF-8 passes through unchanged).

  The receiving side is an RFC 8259 reader (\<open>read_value\<close>), a specification rather than
  code of the repository: whitespace, strings with every escape whose code point is ASCII,
  literals, arrays and objects. Numbers and escapes above U+007F are outside it, as nothing
  the handler prints contains them. Its recursion spends one unit of fuel per nested call;
  \<open>read_value_ser_print\<close> says how much fuel suffices and that reading what was printed
  gives back the value, with the rest of the input untouched.
\<close>

section \<open>The serializer\<close>

definition quote_chr :: char where "quote_chr = CHR 0x22"

definition bslash :: char where "bslash = CHR 0x5C"

definition hex_chr :: "nat \<Rightarrow> char" where
  "hex_chr d = ''0123456789abcdef'' ! d"

definition escape_char :: "char \<Rightarrow> string" where
  "escape_char c =
     (let n = of_char c :: nat in
      if c = quote_chr then [bslash, quote_chr]
      else if c = bslash then [bslash, bslash]
      else if n = 8 then [bslash, CHR ''b'']
      else if n = 9 then [bslash, CHR ''t'']
      else if n = 10 then [bslash, CHR ''n'']
      else if n = 12 then [bslash, CHR ''f'']
      else if n = 13 then [bslash, CHR ''r'']
      else if n < 32 then [bslash, CHR ''u'', CHR ''0'', CHR ''0'', hex_chr (n div 16), hex_chr (n mod 16)]
      else [c])"

definition json_quote :: "string \<Rightarrow> string" where
  "json_quote s = quote_chr # concat (map escape_char s) @ [quote_chr]"

fun join_comma :: "string list \<Rightarrow> string" where
  "join_comma [] = []"
| "join_comma [x] = x"
| "join_comma (x # y # zs) = x @ '','' @ join_comma (y # zs)"

datatype ser = SStr string | SBool bool | SSeq "ser list" | SStruct "(string \<times> ser) list"

fun ser_print :: "ser \<Rightarrow> string" where
  "ser_print (SStr s) = json_quote s"
| "ser_print (SBool b) = (if b then ''true'' else ''false'')"
| "ser_print (SSeq xs) = ''['' @ join_comma (map ser_print xs) @ '']''"
| "ser_print (SStruct fs) =
     ''{'' @ join_comma (map (\<lambda>(k, v). json_quote k @ '':'' @ ser_print v) fs) @ ''}''"

section \<open>The reader\<close>

definition is_ws :: "char \<Rightarrow> bool" where
  "is_ws c \<longleftrightarrow> c \<in> set [CHR 0x20, CHR 0x09, CHR 0x0A, CHR 0x0D]"

definition skip_ws :: "string \<Rightarrow> string" where
  "skip_ws = dropWhile is_ws"

definition hex_val :: "char \<Rightarrow> nat option" where
  "hex_val c = (let n = of_char c :: nat in
     if 48 \<le> n \<and> n < 58 then Some (n - 48) else if 97 \<le> n \<and> n < 103 then Some (n - 87)
     else if 65 \<le> n \<and> n < 71 then Some (n - 55) else None)"

definition hex4 :: "string \<Rightarrow> nat option" where
  "hex4 s = (if length s = 4 then
     (case (hex_val (s ! 0), hex_val (s ! 1), hex_val (s ! 2), hex_val (s ! 3)) of
        (Some a, Some b, Some c, Some d) \<Rightarrow> Some (((a * 16 + b) * 16 + c) * 16 + d)
      | _ \<Rightarrow> None) else None)"

definition unescape :: "char \<Rightarrow> char option" where
  "unescape d =
     (if d = quote_chr \<or> d = bslash \<or> d = CHR ''/'' then Some d
      else if d = CHR ''b'' then Some (char_of (8 :: nat))
      else if d = CHR ''f'' then Some (char_of (12 :: nat))
      else if d = CHR ''n'' then Some (char_of (10 :: nat))
      else if d = CHR ''r'' then Some (char_of (13 :: nat))
      else if d = CHR ''t'' then Some (char_of (9 :: nat))
      else None)"

function read_str :: "string \<Rightarrow> string \<Rightarrow> (string \<times> string) option" where
  "read_str acc [] = None"
| "read_str acc (c # cs) =
     (if c = quote_chr then Some (acc, cs)
      else if c = bslash then
        (case cs of
           [] \<Rightarrow> None
         | d # ds \<Rightarrow>
             if d = CHR ''u'' then
               (case hex4 (take 4 ds) of
                  Some n \<Rightarrow> if n < 128 then read_str (acc @ [char_of n]) (drop 4 ds) else None
                | None \<Rightarrow> None)
             else (case unescape d of Some e \<Rightarrow> read_str (acc @ [e]) ds | None \<Rightarrow> None))
      else if of_char c < (32 :: nat) then None
      else read_str (acc @ [c]) cs)"
  by pat_completeness auto
termination by (relation "measure (\<lambda>(acc, s). length s)") auto

fun read_value :: "nat \<Rightarrow> string \<Rightarrow> (json \<times> string) option"
and read_elems :: "nat \<Rightarrow> json list \<Rightarrow> string \<Rightarrow> (json \<times> string) option"
and read_members :: "nat \<Rightarrow> (string \<times> json) list \<Rightarrow> string \<Rightarrow> (json \<times> string) option" where
  "read_value 0 s = None"
| "read_value (Suc n) s =
     (case skip_ws s of
        [] \<Rightarrow> None
      | c # r \<Rightarrow>
          if c = quote_chr then map_option (\<lambda>(t, r'). (JString t, r')) (read_str [] r)
          else if take 4 (c # r) = ''true'' then Some (JBool True, drop 3 r)
          else if take 5 (c # r) = ''false'' then Some (JBool False, drop 4 r)
          else if take 4 (c # r) = ''null'' then Some (JNull, drop 3 r)
          else if c = CHR ''['' then
            (if take 1 (skip_ws r) = '']'' then Some (JArray [], drop 1 (skip_ws r))
             else read_elems n [] r)
          else if c = CHR ''{'' then
            (if take 1 (skip_ws r) = ''}'' then Some (JObject [], drop 1 (skip_ws r))
             else read_members n [] r)
          else None)"
| "read_elems 0 acc s = None"
| "read_elems (Suc n) acc s =
     (case read_value n s of
        None \<Rightarrow> None
      | Some (v, r) \<Rightarrow>
          (let r' = skip_ws r in
           if take 1 r' = '','' then read_elems n (acc @ [v]) (drop 1 r')
           else if take 1 r' = '']'' then Some (JArray (acc @ [v]), drop 1 r')
           else None))"
| "read_members 0 acc s = None"
| "read_members (Suc n) acc s =
     (let s' = skip_ws s in
      if take 1 s' \<noteq> [quote_chr] then None
      else case read_str [] (drop 1 s') of
        None \<Rightarrow> None
      | Some (k, r) \<Rightarrow>
          (let r' = skip_ws r in
           if take 1 r' \<noteq> '':'' then None
           else case read_value n (drop 1 r') of
             None \<Rightarrow> None
           | Some (v, r2) \<Rightarrow>
               (let r3 = skip_ws r2 in
                if take 1 r3 = '','' then read_members n (acc @ [(k, v)]) (drop 1 r3)
                else if take 1 r3 = ''}'' then Some (JObject (acc @ [(k, v)]), drop 1 r3)
                else None)))"

fun ser_json :: "ser \<Rightarrow> json" where
  "ser_json (SStr s) = JString s"
| "ser_json (SBool b) = JBool b"
| "ser_json (SSeq xs) = JArray (map ser_json xs)"
| "ser_json (SStruct fs) = JObject (map (\<lambda>(k, v). (k, ser_json v)) fs)"

section \<open>Reading what was printed\<close>

lemma hex_chr_val: "d < 16 \<Longrightarrow> hex_val (hex_chr d) = Some d"
  by (auto simp: numeral_eq_Suc less_Suc_eq hex_chr_def hex_val_def)

lemma char_of_eq: "of_char c = (k :: nat) \<Longrightarrow> char_of k = c"
  by (metis char_of_char)

lemma read_str_escape: "read_str acc (escape_char c @ r) = read_str (acc @ [c]) r"
proof -
  let ?n = "of_char c :: nat"
  have cc: "c = char_of ?n" by simp
  have hex: "hex4 [CHR ''0'', CHR ''0'', hex_chr (?n div 16), hex_chr (?n mod 16)] = Some ?n"
    if "?n < 32"
  proof -
    have "?n div 16 < 16" "?n mod 16 < 16" using that by simp_all
    moreover have "hex_val (CHR ''0'') = Some 0" by (simp add: hex_val_def)
    ultimately show ?thesis by (simp add: hex4_def hex_chr_val)
  qed
  have qb: "of_char quote_chr = (34 :: nat)" "of_char bslash = (92 :: nat)"
    by (simp_all add: quote_chr_def bslash_def)
  consider "c = quote_chr" | "c = bslash" | "c \<noteq> quote_chr" "c \<noteq> bslash" "?n \<in> {8, 9, 10, 12, 13}"
    | "c \<noteq> quote_chr" "c \<noteq> bslash" "?n \<notin> {8, 9, 10, 12, 13}" "?n < 32"
    | "c \<noteq> quote_chr" "c \<noteq> bslash" "\<not> ?n < 32" by blast
  then show ?thesis
  proof cases
    case 1 then show ?thesis by (simp add: escape_char_def unescape_def quote_chr_def bslash_def)
  next
    case 2 then show ?thesis by (simp add: escape_char_def unescape_def quote_chr_def bslash_def)
  next
    case 3
    then show ?thesis
      by (auto simp: escape_char_def unescape_def bslash_def quote_chr_def char_of_eq)
  next
    case 4
    with hex show ?thesis by (simp add: escape_char_def bslash_def quote_chr_def Let_def char_of_eq)
  next
    case 5 then show ?thesis by (simp add: escape_char_def)
  qed
qed

lemma read_str_quote: "read_str acc (concat (map escape_char s) @ quote_chr # r) = Some (acc @ s, r)"
  by (induction s arbitrary: acc) (simp_all add: read_str_escape)

lemma ser_print_head:
  "\<exists>c r. ser_print v = c # r \<and> \<not> is_ws c \<and> c \<noteq> CHR '']'' \<and> c \<noteq> CHR ''}'' \<and> c \<noteq> CHR '',''"
  by (cases v) (auto simp: json_quote_def quote_chr_def is_ws_def)

lemma skip_ws_ser_print [simp]: "skip_ws (ser_print v @ r) = ser_print v @ r"
  using ser_print_head [of v] by (auto simp: skip_ws_def)

lemma take1_ser_print [simp]:
  "take (Suc 0) (ser_print v @ r) = [hd (ser_print v)]"
  "take (Suc 0) (ser_print v) = [hd (ser_print v)]" "Suc 0 - length (ser_print v) = 0"
  "hd (ser_print v) \<noteq> CHR '']''" "hd (ser_print v) \<noteq> CHR ''}''"
  using ser_print_head [of v] by auto

lemma skip_ws_punct [simp]:
  "skip_ws (CHR '','' # r) = CHR '','' # r" "skip_ws (CHR '']'' # r) = CHR '']'' # r"
  "skip_ws (CHR ''}'' # r) = CHR ''}'' # r" "skip_ws (CHR '':'' # r) = CHR '':'' # r"
  "skip_ws (quote_chr # r) = quote_chr # r" "skip_ws (CHR ''['' # r) = CHR ''['' # r"
  "skip_ws (CHR ''{'' # r) = CHR ''{'' # r"
  by (simp_all add: skip_ws_def is_ws_def quote_chr_def)

lemma join_comma_Cons:
  "join_comma (x # xs) = x @ (if xs = [] then [] else CHR '','' # join_comma xs)"
  by (cases xs) simp_all

lemma read_elems_join:
  assumes "xs \<noteq> []"
    and "\<And>x n r. x \<in> set xs \<Longrightarrow> size x < n \<Longrightarrow> read_value n (ser_print x @ r) = Some (ser_json x, r)"
    and "size_list size xs < m"
  shows "read_elems m acc (join_comma (map ser_print xs) @ CHR '']'' # rest) =
           Some (JArray (acc @ map ser_json xs), rest)"
  using assms
proof (induction xs arbitrary: m acc)
  case (Cons x xs)
  from Cons.prems(3) obtain m' where m: "m = Suc m'" and sx: "size x < m'" and sxs: "size_list size xs < m'"
    by (cases m) auto
  have rx: "read_value m' (ser_print x @ r) = Some (ser_json x, r)" for r
    using Cons.prems(2) sx by simp
  show ?case
  proof (cases "xs = []")
    case True
    then show ?thesis using rx by (simp add: m join_comma_Cons)
  next
    case False
    have "read_elems m' (acc @ [ser_json x]) (join_comma (map ser_print xs) @ CHR '']'' # rest) =
            Some (JArray ((acc @ [ser_json x]) @ map ser_json xs), rest)"
      using Cons.IH [OF False _ sxs] Cons.prems(2) by simp
    then show ?thesis using rx False by (simp add: m join_comma_Cons)
  qed
qed simp

lemma read_members_join:
  assumes "fs \<noteq> []"
    and "\<And>k v n r. (k, v) \<in> set fs \<Longrightarrow> size v < n \<Longrightarrow> read_value n (ser_print v @ r) = Some (ser_json v, r)"
    and "size_list (size_prod (\<lambda>_. 0) size) fs < m"
  shows "read_members m acc (join_comma (map (\<lambda>(k, v). json_quote k @ '':'' @ ser_print v) fs) @ CHR ''}'' # rest) =
           Some (JObject (acc @ map (\<lambda>(k, v). (k, ser_json v)) fs), rest)"
  using assms
proof (induction fs arbitrary: m acc)
  case (Cons f fs)
  obtain k v where f: "f = (k, v)" by fastforce
  from Cons.prems(3) obtain m' where m: "m = Suc m'" and sx: "size v < m'"
      and sxs: "size_list (size_prod (\<lambda>_. 0) size) fs < m'"
    by (cases m) (auto simp: f)
  have rx: "read_value m' (ser_print v @ r) = Some (ser_json v, r)" for r
    using Cons.prems(2) [of k v] sx f by simp
  have rk: "read_str [] (concat (map escape_char k) @ quote_chr # r) = Some (k, r)" for r
    using read_str_quote [of "[]" k r] by simp
  show ?case
  proof (cases "fs = []")
    case True
    then show ?thesis using rx rk by (simp add: m f join_comma_Cons json_quote_def Let_def)
  next
    case False
    have "read_members m' (acc @ [(k, ser_json v)])
            (join_comma (map (\<lambda>(k, v). json_quote k @ '':'' @ ser_print v) fs) @ CHR ''}'' # rest) =
            Some (JObject ((acc @ [(k, ser_json v)]) @ map (\<lambda>(k, v). (k, ser_json v)) fs), rest)"
    proof -
      have "read_value n (ser_print v' @ r) = Some (ser_json v', r)"
        if "(k', v') \<in> set fs" "size v' < n" for k' v' n r
        using Cons.prems(2) [of k' v' n r] that by simp
      from Cons.IH [OF False this sxs] show ?thesis by simp
    qed
    then show ?thesis using rx rk False by (simp add: m f join_comma_Cons json_quote_def Let_def)
  qed
qed simp

theorem read_value_ser_print:
  "size v < n \<Longrightarrow> read_value n (ser_print v @ r) = Some (ser_json v, r)"
proof (induction v arbitrary: n r)
  case (SStr s)
  then obtain n' where "n = Suc n'" by (cases n) auto
  then show ?case using read_str_quote [of "[]" s r] by (simp add: json_quote_def skip_ws_def is_ws_def quote_chr_def)
next
  case (SBool b)
  then obtain n' where "n = Suc n'" by (cases n) auto
  then show ?case by (simp add: skip_ws_def is_ws_def quote_chr_def)
next
  case (SSeq xs)
  then obtain n' where n: "n = Suc n'" and sz: "size_list size xs < n'" by (cases n) auto
  show ?case
  proof (cases xs)
    case Nil
    then show ?thesis by (simp add: n skip_ws_def is_ws_def quote_chr_def)
  next
    case (Cons x xs')
    have "read_elems n' [] (join_comma (map ser_print xs) @ CHR '']'' # r) = Some (JArray (map ser_json xs), r)"
      using read_elems_join [of xs n' "[]" r] SSeq.IH sz Cons by simp
    then show ?thesis using Cons by (simp add: n join_comma_Cons quote_chr_def)
  qed
next
  case (SStruct fs)
  then obtain n' where n: "n = Suc n'" and sz: "size_list (size_prod (\<lambda>_. 0) size) fs < n'"
    by (cases n) auto
  show ?case
  proof (cases fs)
    case Nil
    then show ?thesis by (simp add: n skip_ws_def is_ws_def quote_chr_def)
  next
    case (Cons f fs')
    have "read_members n' [] (join_comma (map (\<lambda>(k, v). json_quote k @ '':'' @ ser_print v) fs) @ CHR ''}'' # r) =
            Some (JObject (map (\<lambda>(k, v). (k, ser_json v)) fs), r)"
      using read_members_join [of fs n' "[]" r] SStruct.IH sz Cons by fastforce
    then show ?thesis using Cons
      by (auto simp: n join_comma_Cons skip_ws_def is_ws_def quote_chr_def json_quote_def split: prod.splits)
  qed
qed

lemma length_join_comma: "sum_list (map length ss) \<le> length (join_comma ss)"
  by (induction ss rule: join_comma.induct) auto

lemma size_list_le_sum:
  "(\<And>x. x \<in> set xs \<Longrightarrow> f x < g x) \<Longrightarrow> size_list f xs \<le> sum_list (map g xs)"
  by (induction xs) (auto simp: Suc_le_eq add_mono_thms_linordered_field)

lemma size_ser_print: "size v < length (ser_print v)"
proof (induction v)
  case (SSeq xs)
  have "size_list size xs \<le> sum_list (map length (map ser_print xs))"
    using size_list_le_sum [of xs size "\<lambda>x. length (ser_print x)"] SSeq.IH by (simp add: comp_def)
  with length_join_comma [of "map ser_print xs"] show ?case by simp
next
  case (SStruct fs)
  let ?g = "\<lambda>(k, v). length (json_quote k @ '':'' @ ser_print v)"
  have "size_list (size_prod (\<lambda>_. 0) size) fs \<le> sum_list (map ?g fs)"
  proof (rule size_list_le_sum)
    fix f assume f: "f \<in> set fs"
    obtain k v where kv: "f = (k, v)" by fastforce
    have "size v < length (ser_print v)" using SStruct.IH [OF f] kv by simp
    then show "size_prod (\<lambda>_. 0) size f < ?g f" by (simp add: kv json_quote_def)
  qed
  with length_join_comma [of "map (\<lambda>(k, v). json_quote k @ '':'' @ ser_print v) fs"]
  show ?case by (simp add: comp_def case_prod_beta')
qed (simp_all add: json_quote_def)

end
