(* ===== verification/Message_Handler.thy ===== *)
theory Message_Handler
  imports World Serde_Json
begin

text \<open>
  The downstream notification handler, \<open>src/message-handler/src/event_handler.rs\<close>. For
  each SQS record it parses the body as JSON, reads \<open>amount\<close> as a number and
  \<open>company\<close>, \<open>subject\<close>, \<open>date\<close> as strings (each \<open>expect\<close> panics when its field is
  absent or of another type), builds a Discord webhook message (title, description, and the
  fields Due Date, Amount and Split, the last two rendered \<open>${:.2}\<close> of the amount and of
  half of it) and posts it; the first failure ends the batch.
\<close>

section \<open>The Discord payload (lines 6--34)\<close>

text \<open>The four structs, and what \<open>#[derive(Serialize)]\<close> with \<open>rename_all = "camelCase"\<close>
  makes of them: a struct of their fields in declaration order (every field name is a
  single lower-case word, so the renaming changes none).\<close>

record discord_author =
  da_name :: string

record discord_field =
  df_name :: string
  df_value :: string
  df_inline :: bool

record discord_embed =
  de_author :: discord_author
  de_title :: string
  de_description :: string
  de_fields :: "discord_field list"

record discord_message =
  dm_username :: string
  dm_embeds :: "discord_embed list"

definition author_ser :: "discord_author \<Rightarrow> ser" where
  "author_ser a = SStruct [(''name'', SStr (da_name a))]"

definition field_ser :: "discord_field \<Rightarrow> ser" where
  "field_ser f = SStruct [(''name'', SStr (df_name f)), (''value'', SStr (df_value f)),
                         (''inline'', SBool (df_inline f))]"

definition embed_ser :: "discord_embed \<Rightarrow> ser" where
  "embed_ser e = SStruct [(''author'', author_ser (de_author e)), (''title'', SStr (de_title e)),
                         (''description'', SStr (de_description e)),
                         (''fields'', SSeq (map field_ser (de_fields e)))]"

definition message_ser :: "discord_message \<Rightarrow> ser" where
  "message_ser m = SStruct [(''username'', SStr (dm_username m)), (''embeds'', SSeq (map embed_ser (dm_embeds m)))]"

section \<open>One record (lines 45--74)\<close>

text \<open>\<open>Option::expect(msg)\<close>: the value, or a panic with \<open>msg\<close>.\<close>

definition expect :: "'a option \<Rightarrow> string \<Rightarrow> error + 'a" where
  "expect x msg = (case x of None \<Rightarrow> Inl (Panic msg) | Some a \<Rightarrow> Inr a)"

text \<open>\<open>format!("${:.2}", x)\<close> (lines 63--64).\<close>

definition fmt_dollars :: "f64 \<Rightarrow> string" where
  "fmt_dollars x = ''$'' @ fmt_prec 2 x"

text \<open>Lines 52--68: \<open>amount\<close> is read first (line 52); the struct literal's fields are then
  evaluated in the order written, so \<open>company\<close>, \<open>subject\<close> and \<open>date\<close> are read in that
  order; \<open>amount / 2.0\<close> is \<^const>\<open>f64_half\<close>.\<close>

definition build_discord_message :: "json \<Rightarrow> error + discord_message" where
  "build_discord_message json =
     (case expect (as_f64 (json_index json ''amount'')) ''no amount'' of Inl e \<Rightarrow> Inl e | Inr amount \<Rightarrow>
      case expect (as_str (json_index json ''company'')) ''no company'' of Inl e \<Rightarrow> Inl e | Inr company \<Rightarrow>
      case expect (as_str (json_index json ''subject'')) ''no subject'' of Inl e \<Rightarrow> Inl e | Inr subject \<Rightarrow>
      case expect (as_str (json_index json ''date'')) ''no date'' of Inl e \<Rightarrow> Inl e | Inr date \<Rightarrow>
      Inr \<lparr>dm_username = ''Bill'',
           dm_embeds = [\<lparr>de_author = \<lparr>da_name = ''New Bill''\<rparr>, de_title = company, de_description = subject,
             de_fields = [\<lparr>df_name = ''Due Date'', df_value = date, df_inline = True\<rparr>,
                          \<lparr>df_name = ''Amount'', df_value = fmt_dollars amount, df_inline = True\<rparr>,
                          \<lparr>df_name = ''Split'', df_value = fmt_dollars (f64_half amount), df_inline = True\<rparr>]\<rparr>]\<rparr>)"

text \<open>Lines 45--74: a record without a body ends the batch with an error (line 47);
  \<open>serde_json::Value::from_str(&message)?\<close> (line 50) fails with the parse error; the
  message is built, serialised and posted, and the response is dropped.\<close>

definition process_message :: "services \<Rightarrow> string \<Rightarrow> sqs_message \<Rightarrow> unit io" where
  "process_message sv url record =
     (case sqs_body record of
        None \<Rightarrow> throw (StrError ''no message found'')
      | Some message \<Rightarrow>
          bind_act (lift (map_sum JsonError id (sv_parse_json sv message))) (\<lambda>json.
          bind_act (lift (build_discord_message json)) (\<lambda>body.
          bind_act (reqwest_post sv url (ser_print (message_ser body))) (\<lambda>_. ret ()))))"

section \<open>The batch (lines 44--75) and the handler (lines 36--78)\<close>

fun run_messages :: "services \<Rightarrow> string \<Rightarrow> sqs_message list \<Rightarrow> unit io" where
  "run_messages sv url [] = ret ()"
| "run_messages sv url (r # rs) = bind_act (process_message sv url r) (\<lambda>_. run_messages sv url rs)"

definition function_handler_message :: "services \<Rightarrow> sqs_event \<Rightarrow> unit io" where
  "function_handler_message sv event =
     bind_act (env_expect sv ''DISCORD_WEBHOOK_URL'' ''DISCORD_WEBHOOK_URL not set'')
       (\<lambda>url. run_messages sv url (sqs_records event))"

section \<open>The specification's contract\<close>

text \<open>The downstream contract (specification, section 6): fail loudly if any of
  \<open>amount\<close>, \<open>company\<close>, \<open>subject\<close>, \<open>date\<close> is absent. As the code reads them, a
  field is absent also when it has the wrong JSON type (an amount given as a string).\<close>

definition bill_fields :: "string list" where
  "bill_fields = [''amount'', ''company'', ''subject'', ''date'']"

definition field_absent :: "json \<Rightarrow> string \<Rightarrow> bool" where
  "field_absent v f =
     (if f = ''amount'' then as_f64 (json_index v f) = None else as_str (json_index v f) = None)"

definition missing_field :: "json \<Rightarrow> string option" where
  "missing_field v = find (field_absent v) bill_fields"

section \<open>A fixture for the witnesses\<close>

text \<open>The specification's invoice: \<open>{"amount":42.5,"company":"Acme","subject":"Invoice",
  "date":"2024-01-01"}\<close>, where 42.5 is the double \<open>85 * 2^-1\<close>.\<close>

definition demo_bill :: json where
  "demo_bill = JObject [(''amount'', JNumber (F64 False 85 (-1))), (''company'', JString ''Acme''),
                        (''subject'', JString ''Invoice''), (''date'', JString ''2024-01-01'')]"

definition demo_hook_services :: "json \<Rightarrow> nat \<Rightarrow> services" where
  "demo_hook_services v status =
     \<lparr>sv_env = [''DISCORD_WEBHOOK_URL'' \<mapsto> ''https://discord.test/hook''],
      sv_s3_fault = (\<lambda>_ _. None), sv_transport = (\<lambda>bs. [Inr bs]),
      sv_converse = (\<lambda>_ _. Inl ''unused''), sv_sqs_fault = (\<lambda>_ _. None),
      sv_workmail = (\<lambda>_. Inl ''unused''), sv_parse_mail = (\<lambda>_. Inl ''unused''),
      sv_uuid = ''unused'', sv_put_fault = (\<lambda>_ _. None),
      sv_parse_json = (\<lambda>_. Inr v), sv_webhook = (\<lambda>_ _. Inr status)\<rparr>"

definition hook_world :: world where
  "hook_world = \<lparr>w_s3 = Map.empty, w_queue = [], w_posts = [], w_calls = []\<rparr>"

lemmas demo_hook_defs = demo_bill_def demo_hook_services_def hook_world_def

section \<open>Properties\<close>

subsection \<open>Building blocks\<close>

lemma demo_bill_amounts:
  "fmt_dollars (F64 False 85 (-1)) = ''$42.50''" "fmt_dollars (f64_half (F64 False 85 (-1))) = ''$21.25''"
  by (simp_all add: fmt_dollars_def fmt_prec_def f64_half_def round_half_even_def f64_val_def
      Let_def pad_zeros_def digit_chr_def nat_str_large)

lemma expect_simps [simp]: "expect None msg = Inl (Panic msg)" "expect (Some a) msg = Inr a"
  by (simp_all add: expect_def)

lemma build_discord_message_Inr:
  assumes "map_of kvs ''amount'' = Some (JNumber a)" "map_of kvs ''company'' = Some (JString c)"
    "map_of kvs ''subject'' = Some (JString s)" "map_of kvs ''date'' = Some (JString d)"
  shows "build_discord_message (JObject kvs) =
    Inr \<lparr>dm_username = ''Bill'',
         dm_embeds = [\<lparr>de_author = \<lparr>da_name = ''New Bill''\<rparr>, de_title = c, de_description = s,
           de_fields = [\<lparr>df_name = ''Due Date'', df_value = d, df_inline = True\<rparr>,
                        \<lparr>df_name = ''Amount'', df_value = fmt_dollars a, df_inline = True\<rparr>,
                        \<lparr>df_name = ''Split'', df_value = fmt_dollars (f64_half a), df_inline = True\<rparr>]\<rparr>]\<rparr>"
  using assms by (simp add: build_discord_message_def as_f64_def as_str_def)

lemma process_message_body:
  assumes "sqs_body r = Some t" "sv_parse_json sv t = Inr v" "build_discord_message v = Inr m"
  shows "process_message sv url r = bind_act (reqwest_post sv url (ser_print (message_ser m))) (\<lambda>_. ret ())"
  using assms by (simp add: process_message_def)

lemma process_message_posts:
  assumes "process_message sv url r w = (res, w')"
  shows "(isl res \<longrightarrow> w_posts w' = w_posts w) \<and> (res = Inr () \<longrightarrow> (\<exists>b. w_posts w' = w_posts w @ [(url, b)]))"
  using assms
  by (auto simp: process_message_def reqwest_post_def Let_def act_simps
      split: option.splits sum.splits sum.split_asm)

lemma run_messages_append:
  "run_messages sv url (rs1 @ rs2) = bind_act (run_messages sv url rs1) (\<lambda>_. run_messages sv url rs2)"
  by (induction rs1) simp_all

lemma run_messages_Inr_posts:
  "run_messages sv url rs w = (Inr (), w') \<Longrightarrow> length (w_posts w') = length (w_posts w) + length rs"
proof (induction rs arbitrary: w)
  case (Cons r rs)
  obtain res w1 where pr: "process_message sv url r w = (res, w1)" by fastforce
  with Cons.prems have "res = Inr ()" and rest: "run_messages sv url rs w1 = (Inr (), w')"
    by (auto simp: act_simps split: sum.splits)
  with process_message_posts [OF pr] Cons.IH [OF rest] show ?case by auto
qed (simp add: act_simps)

subsection \<open>One record\<close>

lemma message_ser_json:
  "ser_json (message_ser m) =
     JObject [(''username'', JString (dm_username m)), (''embeds'', JArray (map (\<lambda>e.
       JObject [(''author'', JObject [(''name'', JString (da_name (de_author e)))]),
                (''title'', JString (de_title e)), (''description'', JString (de_description e)),
                (''fields'', JArray (map (\<lambda>f. JObject [(''name'', JString (df_name f)),
                   (''value'', JString (df_value f)), (''inline'', JBool (df_inline f))]) (de_fields e)))])
       (dm_embeds m)))]"
  by (simp add: message_ser_def embed_ser_def author_ser_def field_ser_def comp_def)

text \<open>C21: a record whose body is the JSON of a bill is turned into exactly one webhook post
  to the configured URL. The body posted is well-formed JSON (it reads back completely, with
  fuel its own length) and says: username \<open>Bill\<close>, one embed by \<open>New Bill\<close> whose title
  is the company, whose description is the subject, and whose three inline fields are the
  due date, the amount as \<open>${:.2}\<close> and half the amount as \<open>${:.2}\<close>.\<close>

theorem process_message_posts_bill:
  assumes "sqs_body r = Some t" "sv_parse_json sv t = Inr (JObject kvs)"
    and "map_of kvs ''amount'' = Some (JNumber a)" "map_of kvs ''company'' = Some (JString c)"
    and "map_of kvs ''subject'' = Some (JString s)" "map_of kvs ''date'' = Some (JString d)"
    and "\<forall>b. \<not> isl (sv_webhook sv url b)"
  shows "\<exists>b. process_message sv url r w =
              (Inr (), w\<lparr>w_posts := w_posts w @ [(url, b)], w_calls := w_calls w @ [PostWebhook url b]\<rparr>) \<and>
            read_value (length b) b =
              Some (JObject [(''username'', JString ''Bill''), (''embeds'', JArray [JObject [
                (''author'', JObject [(''name'', JString ''New Bill'')]),
                (''title'', JString c), (''description'', JString s),
                (''fields'', JArray [
                   JObject [(''name'', JString ''Due Date''), (''value'', JString d), (''inline'', JBool True)],
                   JObject [(''name'', JString ''Amount''), (''value'', JString (fmt_dollars a)),
                            (''inline'', JBool True)],
                   JObject [(''name'', JString ''Split''), (''value'', JString (fmt_dollars (f64_half a))),
                            (''inline'', JBool True)]])]])], [])"
proof -
  note m = build_discord_message_Inr [OF assms(3-6)]
  let ?m = "\<lparr>dm_username = ''Bill'',
         dm_embeds = [\<lparr>de_author = \<lparr>da_name = ''New Bill''\<rparr>, de_title = c, de_description = s,
           de_fields = [\<lparr>df_name = ''Due Date'', df_value = d, df_inline = True\<rparr>,
                        \<lparr>df_name = ''Amount'', df_value = fmt_dollars a, df_inline = True\<rparr>,
                        \<lparr>df_name = ''Split'', df_value = fmt_dollars (f64_half a), df_inline = True\<rparr>]\<rparr>]\<rparr>
         :: discord_message"
  let ?b = "ser_print (message_ser ?m)"
  have "\<not> isl (sv_webhook sv url ?b)" using assms(7) by blast
  then obtain status where st: "sv_webhook sv url ?b = Inr status"
    by (cases "sv_webhook sv url ?b") auto
  have "process_message sv url r w =
          (Inr (), w\<lparr>w_posts := w_posts w @ [(url, ?b)], w_calls := w_calls w @ [PostWebhook url ?b]\<rparr>)"
    using st by (simp add: process_message_body [OF assms(1,2) m] reqwest_post_def log_call_def act_simps)
  moreover have "read_value (length ?b) ?b = Some (ser_json (message_ser ?m), [])"
    using read_value_ser_print [OF size_ser_print, of "message_ser ?m" "[]"] by simp
  ultimately show ?thesis by (intro exI [of _ ?b]) (simp add: message_ser_json)
qed

theorem process_message_posts_bill_witness:
  "\<exists>b. process_message (demo_hook_services demo_bill 204) ''https://discord.test/hook''
          \<lparr>sqs_body = Some ''{}''\<rparr> hook_world =
        (Inr (), hook_world\<lparr>w_posts := [(''https://discord.test/hook'', b)],
                            w_calls := [PostWebhook ''https://discord.test/hook'' b]\<rparr>) \<and>
      read_value (length b) b =
        Some (JObject [(''username'', JString ''Bill''), (''embeds'', JArray [JObject [
          (''author'', JObject [(''name'', JString ''New Bill'')]),
          (''title'', JString ''Acme''), (''description'', JString ''Invoice''),
          (''fields'', JArray [
             JObject [(''name'', JString ''Due Date''), (''value'', JString ''2024-01-01''), (''inline'', JBool True)],
             JObject [(''name'', JString ''Amount''), (''value'', JString ''$42.50''), (''inline'', JBool True)],
             JObject [(''name'', JString ''Split''), (''value'', JString ''$21.25''), (''inline'', JBool True)]])]])], [])"
proof -
  note a = demo_bill_amounts
  show ?thesis
    using process_message_posts_bill [of "\<lparr>sqs_body = Some ''{}''\<rparr>" "''{}''" "demo_hook_services demo_bill 204"
        "[(''amount'', JNumber (F64 False 85 (-1))), (''company'', JString ''Acme''),
          (''subject'', JString ''Invoice''), (''date'', JString ''2024-01-01'')]"
        "F64 False 85 (-1)" "''Acme''" "''Invoice''" "''2024-01-01''" "''https://discord.test/hook''" hook_world]
    by (simp add: demo_hook_defs a)
qed

text \<open>C22: the four fields are checked in the order amount, company, subject, date, and the
  message is built exactly when none is absent: when one is absent the record panics naming
  the first absent field in that order (\<open>no amount\<close>, \<open>no company\<close>, \<open>no subject\<close>,
  \<open>no date\<close>), and otherwise the build succeeds.\<close>

theorem build_discord_message_missing_field:
  "(case missing_field v of
      Some f \<Rightarrow> build_discord_message v = Inl (Panic (''no '' @ f))
    | None \<Rightarrow> \<not> isl (build_discord_message v))"
  by (cases "as_f64 (json_index v ''amount'')"; cases "as_str (json_index v ''company'')";
      cases "as_str (json_index v ''subject'')"; cases "as_str (json_index v ''date'')")
     (simp_all add: missing_field_def bill_fields_def field_absent_def build_discord_message_def
       del: as_f64_Some_iff as_str_Some_iff)

text \<open>C23: once the message is built, the record succeeds whatever status the webhook
  answers, a rejection (\<open>4xx\<close>, \<open>5xx\<close>) included: the response is dropped
  (lines 70--74 never call \<open>error_for_status\<close>), so a post Discord refused counts as
  delivered and the batch goes on.\<close>

theorem process_message_ignores_status:
  assumes "sqs_body r = Some t" "sv_parse_json sv t = Inr v" "build_discord_message v = Inr m"
    and "sv_webhook sv url (ser_print (message_ser m)) = Inr status"
  shows "process_message sv url r w =
           (Inr (), (log_call (PostWebhook url (ser_print (message_ser m))) w)
                      \<lparr>w_posts := w_posts w @ [(url, ser_print (message_ser m))]\<rparr>)"
  using assms by (simp add: process_message_body reqwest_post_def act_simps)

theorem process_message_ignores_status_witness:
  "process_message (demo_hook_services demo_bill 500) ''https://discord.test/hook''
       \<lparr>sqs_body = Some ''{}''\<rparr> hook_world =
     (Inr (), (log_call (PostWebhook ''https://discord.test/hook'' (ser_print (message_ser
                (projr (build_discord_message demo_bill))))) hook_world)
        \<lparr>w_posts := w_posts hook_world @ [(''https://discord.test/hook'', ser_print (message_ser
                (projr (build_discord_message demo_bill))))]\<rparr>)"
proof -
  have "build_discord_message demo_bill = Inr (projr (build_discord_message demo_bill))"
    by (simp add: demo_bill_def build_discord_message_def as_f64_def as_str_def)
  then show ?thesis
    using process_message_ignores_status [of "\<lparr>sqs_body = Some ''{}''\<rparr>" "''{}''"
        "demo_hook_services demo_bill 500" demo_bill "projr (build_discord_message demo_bill)"
        "''https://discord.test/hook''" 500 hook_world]
    by (simp add: demo_hook_services_def)
qed

text \<open>C24: a record without a body ends the batch with the error \<open>no message found\<close>
  before any call.\<close>

theorem process_message_no_body:
  "sqs_body r = None \<Longrightarrow> process_message sv url r w = (Inl (StrError ''no message found''), w)"
  by (simp add: process_message_def act_simps)

theorem process_message_no_body_witness:
  "process_message (demo_hook_services demo_bill 204) ''https://discord.test/hook''
       \<lparr>sqs_body = None\<rparr> hook_world = (Inl (StrError ''no message found''), hook_world)"
  using process_message_no_body [of "\<lparr>sqs_body = None\<rparr>"] by simp

text \<open>C25: a record posts at most once, to the configured URL, and only if it succeeds: a
  record that fails (no body, unparsable body, missing field, transport failure) leaves the
  posts unchanged.\<close>

theorem process_message_posts_only_on_success:
  assumes "process_message sv url r w = (res, w')"
  shows "(isl res \<longrightarrow> w_posts w' = w_posts w) \<and> (\<not> isl res \<longrightarrow> (\<exists>b. w_posts w' = w_posts w @ [(url, b)]))"
  using assms
  by (auto simp: process_message_def reqwest_post_def Let_def act_simps
      split: option.splits sum.splits sum.split_asm)

theorem process_message_posts_only_on_success_witness:
  "w_posts (snd (process_message (demo_hook_services (JObject []) 204) ''u'' \<lparr>sqs_body = Some ''{}''\<rparr>
     hook_world)) = w_posts hook_world \<and>
   isl (fst (process_message (demo_hook_services (JObject []) 204) ''u'' \<lparr>sqs_body = Some ''{}''\<rparr> hook_world))"
proof -
  obtain res w' where run: "process_message (demo_hook_services (JObject []) 204) ''u''
      \<lparr>sqs_body = Some ''{}''\<rparr> hook_world = (res, w')" by fastforce
  have "isl res" using run
    by (auto simp: process_message_def build_discord_message_def demo_hook_services_def act_simps
        as_f64_def)
  with process_message_posts_only_on_success [OF run] run show ?thesis by simp
qed

subsection \<open>The batch and the handler\<close>

text \<open>C26: if the records before \<open>r\<close> all succeed and \<open>r\<close> fails, the batch fails with
  \<open>r\<close>'s error in the world \<open>r\<close> left: the records after it are never processed, and
  exactly one post per earlier record has been made.\<close>

theorem run_messages_first_failure:
  assumes ok: "run_messages sv url rs1 w = (Inr (), w1)"
    and fail: "process_message sv url r w1 = (Inl e, w2)"
  shows "run_messages sv url (rs1 @ r # rs2) w = (Inl e, w2) \<and>
         length (w_posts w2) = length (w_posts w) + length rs1"
proof
  show "run_messages sv url (rs1 @ r # rs2) w = (Inl e, w2)"
    using ok fail by (simp add: run_messages_append act_simps)
  have "w_posts w2 = w_posts w1" using process_message_posts [OF fail] by simp
  with run_messages_Inr_posts [OF ok] show "length (w_posts w2) = length (w_posts w) + length rs1"
    by simp
qed

theorem run_messages_first_failure_witness:
  "run_messages (demo_hook_services demo_bill 204) ''u''
      ([\<lparr>sqs_body = Some ''{}''\<rparr>] @ \<lparr>sqs_body = None\<rparr> # [\<lparr>sqs_body = Some ''{}''\<rparr>]) hook_world =
     (Inl (StrError ''no message found''),
      snd (run_messages (demo_hook_services demo_bill 204) ''u'' [\<lparr>sqs_body = Some ''{}''\<rparr>] hook_world)) \<and>
   length (w_posts (snd (run_messages (demo_hook_services demo_bill 204) ''u'' [\<lparr>sqs_body = Some ''{}''\<rparr>]
      hook_world))) = length (w_posts hook_world) + 1"
proof -
  let ?sv = "demo_hook_services demo_bill 204"
  obtain w1 where ok: "run_messages ?sv ''u'' [\<lparr>sqs_body = Some ''{}''\<rparr>] hook_world = (Inr (), w1)"
    by (simp add: process_message_def build_discord_message_def reqwest_post_def demo_hook_defs
        act_simps Let_def as_f64_def as_str_def)
  have fail: "process_message ?sv ''u'' \<lparr>sqs_body = None\<rparr> w1 = (Inl (StrError ''no message found''), w1)"
    by (simp add: process_message_def act_simps)
  from run_messages_first_failure [OF ok fail, of "[\<lparr>sqs_body = Some ''{}''\<rparr>]"] ok show ?thesis by simp
qed

text \<open>C27: the webhook URL is read before anything else; if it is not set the handler
  panics naming it, before any call and with the world unchanged.\<close>

theorem function_handler_message_config_missing:
  "sv_env sv ''DISCORD_WEBHOOK_URL'' = None \<Longrightarrow>
     function_handler_message sv ev w = (Inl (Panic ''DISCORD_WEBHOOK_URL not set''), w)"
  by (simp add: function_handler_message_def env_expect_def act_simps)

theorem function_handler_message_config_missing_witness:
  "function_handler_message ((demo_hook_services demo_bill 204)\<lparr>sv_env := Map.empty\<rparr>)
      \<lparr>sqs_records = [\<lparr>sqs_body = Some ''{}''\<rparr>]\<rparr> hook_world =
     (Inl (Panic ''DISCORD_WEBHOOK_URL not set''), hook_world)"
  using function_handler_message_config_missing [of "(demo_hook_services demo_bill 204)\<lparr>sv_env := Map.empty\<rparr>"]
  by simp

subsection \<open>The batch refines the specification's policy\<close>

lemma local_io_process_message [intro]: "local_io (process_message sv url r)"
  unfolding process_message_def
  by (auto intro!: local_io_bind local_io_lift local_io_ret local_io_throw local_io_reqwest_post
      split: option.splits if_splits)

lemma process_message_s3: "process_message sv url r w = (res, w') \<Longrightarrow> w_s3 w' = w_s3 w"
  by (auto simp: process_message_def reqwest_post_def Let_def act_simps
      split: option.splits sum.splits if_splits)

text \<open>C12: the message loop implements the specification's batch policy: what a run over
  a list of records adds to the world (its result, the calls it made, the webhook posts) is
  what the policy computes from the records' separate outcomes. Each record is processed as
  if alone, in order, and the first failure ends the batch: the records after it make no
  call and post nothing.\<close>

theorem run_messages_refines:
  "observe_log w_posts w (run_messages sv url rs w) =
     run_until_failure (map (\<lambda>r. observe_log w_posts (clean w) (process_message sv url r (clean w))) rs)"
  by (rule foreach_refines [where f = "process_message sv url"]) (auto dest: process_message_s3)

subsection \<open>The rendered amounts\<close>

text \<open>C28: the Amount field is a dollar sign followed by a decimal with two fraction digits
  that reads back within half a cent of the double the JSON gave.\<close>

theorem fmt_dollars_reads_back:
  "take 1 (fmt_dollars x) = ''$'' \<and>
   (\<exists>r. read_fixed 2 (drop 1 (fmt_dollars x)) = Some r \<and> \<bar>r - f64_val x\<bar> \<le> 1 / 200)"
  using fmt_prec_close [of 2 x] by (simp add: fmt_dollars_def)

lemma f64_half_sign [simp]: "f64_neg (f64_half x) = f64_neg x"
  by (simp add: f64_half_def)

lemma f64_half_value:
  assumes "f64_ok x" "power_int 2 (-1021) \<le> \<bar>f64_val x\<bar>"
  shows "f64_val (f64_half x) = f64_val x / 2"
proof (cases "-1074 < f64_exp x")
  case False
  with f64_small_exp [OF assms(1)] assms(2) show ?thesis by linarith
qed (rule f64_val_half_exact)

text \<open>C29: the Split field is half the Amount field to within one cent: reading both back,
  twice the split differs from the amount by at most \<open>0.01\<close> (for every amount outside the
  subnormal range, where \<open>amount / 2.0\<close> is exact). It can differ by exactly one cent:
  \<open>$0.25\<close> splits as \<open>$0.12\<close>, an odd number of cents never splits evenly, and the
  specification does not say how the cent is to be shared.\<close>

theorem split_within_a_cent:
  assumes ok: "f64_ok x" and normal: "power_int 2 (-1021) \<le> \<bar>f64_val x\<bar>"
  shows "\<exists>a s. read_fixed 2 (drop 1 (fmt_dollars x)) = Some a \<and>
               read_fixed 2 (drop 1 (fmt_dollars (f64_half x))) = Some s \<and> \<bar>a - 2 * s\<bar> \<le> 1 / 100"
proof -
  let ?q = "\<bar>f64_val x\<bar>"
  let ?sg = "if f64_neg x then -1 else 1 :: rat"
  define A where "A = round_half_even (?q * 100)"
  define S where "S = round_half_even (?q / 2 * 100)"
  have half: "\<bar>f64_val (f64_half x)\<bar> = ?q / 2" using f64_half_value [OF ok normal] by simp
  have ra: "read_fixed 2 (drop 1 (fmt_dollars x)) = Some (?sg * of_int A / 100)"
    using fmt_prec_reads [of 2 x] by (simp add: fmt_dollars_def A_def)
  have rs: "read_fixed 2 (drop 1 (fmt_dollars (f64_half x))) = Some (?sg * of_int S / 100)"
    using fmt_prec_reads [of 2 "f64_half x"] by (simp add: fmt_dollars_def S_def half)
  have "\<bar>A - 2 * S\<bar> \<le> 1" unfolding A_def S_def by (rule round_half_even_halves)
  then have "\<bar>of_int (A - 2 * S) :: rat\<bar> \<le> 1" by linarith
  then have "\<bar>?sg * of_int A / 100 - 2 * (?sg * of_int S / 100)\<bar> \<le> 1 / 100"
    by (auto simp: abs_if algebra_simps divide_simps split: if_splits)
  with ra rs show ?thesis by blast
qed

theorem split_within_a_cent_witness:
  "\<exists>a s. read_fixed 2 (drop 1 (fmt_dollars (F64 False 1 (-2)))) = Some a \<and>
         read_fixed 2 (drop 1 (fmt_dollars (f64_half (F64 False 1 (-2))))) = Some s \<and> \<bar>a - 2 * s\<bar> \<le> 1 / 100"
proof -
  have "f64_ok (F64 False 1 (-2))" by (simp add: f64_ok_def)
  moreover have "power_int 2 (-1021) \<le> \<bar>f64_val (F64 False 1 (-2))\<bar>"
  proof -
    have "power_int (2 :: rat) (-1021) \<le> power_int 2 (-2)" by (rule power_int_increasing) simp_all
    then show ?thesis by (simp add: f64_val_def)
  qed
  ultimately show ?thesis by (rule split_within_a_cent)
qed

lemma split_drops_a_cent:
  "fmt_dollars (F64 False 1 (-2)) = ''$0.25'' \<and> fmt_dollars (f64_half (F64 False 1 (-2))) = ''$0.12''"
proof -
  have "\<lfloor>25 / 2 :: rat\<rfloor> = 12" by (simp add: floor_eq_iff)
  then show ?thesis
    by (simp add: fmt_dollars_def fmt_prec_def f64_half_def round_half_even_def f64_val_def
        Let_def pad_zeros_def digit_chr_def nat_str_large)
qed

subsection \<open>Every well-formed record is posted\<close>

text \<open>C30: when every record carries a body whose JSON has the four fields and the webhook
  can be reached, the batch succeeds and makes one post per record.\<close>

theorem run_messages_all_posted:
  assumes "\<forall>r \<in> set rs. \<exists>t v m. sqs_body r = Some t \<and> sv_parse_json sv t = Inr v \<and>
                                 build_discord_message v = Inr m"
    and hook: "\<forall>b. \<not> isl (sv_webhook sv url b)"
  shows "\<exists>w'. run_messages sv url rs w = (Inr (), w') \<and> length (w_posts w') = length (w_posts w) + length rs"
  using assms(1)
proof (induction rs arbitrary: w)
  case Nil
  then show ?case by (simp add: act_simps)
next
  case (Cons r rs)
  then obtain t v m where r: "sqs_body r = Some t" "sv_parse_json sv t = Inr v" "build_discord_message v = Inr m"
    by auto
  have "\<not> isl (sv_webhook sv url (ser_print (message_ser m)))" using hook by blast
  then obtain status where st: "sv_webhook sv url (ser_print (message_ser m)) = Inr status"
    by (cases "sv_webhook sv url (ser_print (message_ser m))") auto
  obtain w1 where pr: "process_message sv url r w = (Inr (), w1)"
    using st by (simp add: process_message_body [OF r] reqwest_post_def act_simps Let_def)
  from Cons.IH [of w1] Cons.prems obtain w' where
    rest: "run_messages sv url rs w1 = (Inr (), w')" and len: "length (w_posts w') = length (w_posts w1) + length rs"
    by auto
  have "length (w_posts w1) = Suc (length (w_posts w))" using process_message_posts [OF pr] by auto
  with pr rest len show ?case by (simp add: act_simps)
qed

theorem run_messages_all_posted_witness:
  "\<exists>w'. run_messages (demo_hook_services demo_bill 204) ''u''
           [\<lparr>sqs_body = Some ''{}''\<rparr>, \<lparr>sqs_body = Some ''[]''\<rparr>] hook_world = (Inr (), w') \<and>
         length (w_posts w') = length (w_posts hook_world) + 2"
proof -
  have a: "\<forall>r \<in> set [\<lparr>sqs_body = Some ''{}''\<rparr>, \<lparr>sqs_body = Some ''[]''\<rparr>].
          \<exists>t v m. sqs_body r = Some t \<and> sv_parse_json (demo_hook_services demo_bill 204) t = Inr v \<and>
                  build_discord_message v = Inr m"
    by (simp add: demo_hook_services_def demo_bill_def build_discord_message_def as_f64_def as_str_def)
  have b: "\<forall>b. \<not> isl (sv_webhook (demo_hook_services demo_bill 204) ''u'' b)"
    by (simp add: demo_hook_services_def)
  from run_messages_all_posted [OF a b, of hook_world] show ?thesis by simp
qed

end
