(* ===== verification/Spec2Isabelle.thy ===== *)
theory Spec2Isabelle
  imports Attachment_Handler Mail_Handler Message_Handler
begin

text \<open>
  \<^bold>\<open>A verification development of bill-rust.\<close>
  The repository is three AWS Lambda handlers that form a pipeline. The mail handler
  (\<open>src/mail-handler/src/event_handler.rs\<close>) receives a WorkMail flow event, fetches the
  raw message, finds its first PDF attachment and stores it in S3 at a fresh UUIDv7 key.
  The attachment handler (\<open>src/attachment-handler/src/event_handler.rs\<close>), the core,
  is notified of new S3 objects; for each record it fetches the PDF, asks a Bedrock model to
  extract the bill's fields as JSON under a fixed prompt, checks the shape of the model's
  reply and publishes the reply's text to an SQS queue; the first failure ends the batch.
  The message handler (\<open>src/message-handler/src/event_handler.rs\<close>) consumes the queue
  and posts a Discord notification. The handlers share no memory: they interact only through
  S3 objects and SQS messages.

  \<^bold>\<open>Theories.\<close>
  \<^item> \<open>Prelude\<close>: bytes (\<open>8 word list\<close>), the error type (one constructor per concrete
    error type converted by \<open>?\<close>, and \<open>Panic\<close> for \<open>expect\<close>), the result-and-state
    monad \<open>act\<close> with \<open>bind_act\<close> as Rust's \<open>?\<close>, its laws, and \<open>preserves\<close>, the
    invariant-kept-by-every-step predicate closed under binding.
  \<^item> \<open>Sdk\<close>: the library types the handlers touch (S3 notification records, the Bedrock
    Converse request and reply types, the two builders with their required fields,
    \<open>ByteStream::collect\<close>, \<open>mailparse\<close>'s parsed mail).
  \<^item> \<open>World\<close>: the interface to the outside. A \<open>world\<close> holds the S3 objects, the SQS
    messages, the webhook posts and the trace of every SDK call in issue order; \<open>services\<close>
    holds what the world answers (environment, faults, the transport's chunking, the model's
    replies, parsed mails, the fresh key). One operation per SDK call
    (\<open>s3_get_object\<close>, \<open>bedrock_converse\<close>, \<open>sqs_send_message\<close>,
    \<open>workmail_get_raw_message_content\<close>, \<open>s3_put_object\<close>) logs itself, then fails or
    applies its effect. \<open>local_io\<close> states that an operation's result and the calls and
    messages it appends depend only on the S3 contents; every operation is local and
    \<open>bind_act\<close> keeps locality.
  \<^item> \<open>Attachment_Handler\<close>: \<open>build_prompt\<close> (lines 21--30), \<open>fetch_document\<close> (36--45),
    \<open>request_message\<close> (47--63), \<open>validate_output\<close> (72--86), \<open>process_record\<close>
    (33--93), \<open>run_records\<close> (the loop, 32--96) and \<open>function_handler\<close> (9--97), each
    with the code's guards, early returns and error strings.
  \<^item> \<open>Mail_Handler\<close>: \<open>find_attachment\<close> with \<open>is_pdf_part\<close> (lines 38--45) and
    \<open>function_handler_mail\<close> (17--60).
  \<^item> \<open>Json\<close>: finite doubles (\<open>F64 sign mantissa exponent\<close>, value an exact rational),
    \<open>amount / 2.0\<close> as \<open>f64_half\<close> with IEEE rounding at the bottom of the subnormal
    range, \<open>format!("{:.p}")\<close> as \<open>fmt_prec\<close> (exact value, ties to even, sign bit shown),
    serde_json's \<open>Value\<close> with \<open>Index<&str>\<close>, \<open>as_f64\<close> and \<open>as_str\<close>, and a
    decimal reader stating what a rendering means.
  \<^item> \<open>Serde_Json\<close>: serde's data model (\<open>ser\<close>) and serde_json's compact printer with
    its byte-wise string escaping, and an RFC 8259 reader with fuel.
  \<^item> \<open>Message_Handler\<close>: the Discord structs and their derived serialisation (lines
    6--34), \<open>build_discord_message\<close> (52--68), \<open>process_message\<close> (45--74),
    \<open>run_messages\<close> (44--75) and \<open>function_handler_message\<close> (36--78); the webhook post
    is World's \<open>reqwest_post\<close>, which yields the response status.
  World also holds the specification's batch policy, \<open>run_until_failure\<close>, and
  \<open>foreach_refines\<close>: a loop of local steps that leave S3 alone refines it.
  \<^item> \<open>Spec2Isabelle\<close> (this theory): properties that span handlers.

  \<^bold>\<open>What is proved.\<close>
  For the attachment handler: the record loop refines the specification's batch policy
  (\<open>run_records_refines\<close>: each record as if alone, in order, up to and including the first
  failure) and aborts at the first failure with exactly one message per earlier record
  (\<open>run_records_first_failure\<close>); one record's full success path
  (\<open>process_record_success\<close>), its call order, with the model receiving exactly the fetched bytes
  (\<open>process_record_call_order\<close>), that it
  publishes at most one message (\<open>process_record_publishes_once\<close>), and its panic on a
  missing location; the reply check equals the specification's ordered four-way
  classification and its errors identify the failed check; fetching yields exactly the
  stored chunks joined; the handler's configuration panics, the prompt's verbatim contents, and that every model call uses the configured
  model and the one prompt. For the mail handler: the first PDF part is stored at the fresh
  key, a mail without one fails and stores nothing, S3 changes only on success, and a part
  whose header key is not spelled exactly \<open>Content-Type\<close> is not recognised. For the message handler: the record loop refines the same
  batch policy (\<open>run_messages_refines\<close>), both loops being instances of World's
  \<open>foreach_refines\<close>; a record carrying a bill is posted once to the configured URL as well-formed JSON that reads
  back as the Discord message with the bill's fields (\<open>process_message_posts_bill\<close>); the
  four fields are checked in code order and the panic names the first absent one; the
  webhook's status is never looked at; failing records post nothing; the batch stops at the
  first failure and posts every well-formed record otherwise; the Amount reads back within
  half a cent of the double, the Split is half of it to within a cent, \<open>amount / 2.0\<close>
  is the exact half rounded to the nearest double, a finite double again, and exact except
  at the subnormal bottom with an odd mantissa. Across handlers: the bytes the mail handler
  stores are the bytes the model receives.

  \<^bold>\<open>Bounds and termination.\<close> Every loop of the code runs over a finite list (the
  event's records, a mail's subparts, a body's chunks), so each is structural recursion or a
  library fold, and every definition of the code is total and executable. The JSON reader,
  a specification of the receiving side, recurses through nested values and is given fuel:
  \<open>read_value_ser_print\<close> with \<open>size_ser_print\<close> shows that fuel equal to the
  printed text's length always suffices. The only machine arithmetic is the \<open>f64\<close> amount: mantissas below \<open>2^53\<close>
  and exponents in \<open>[-1074, 971]\<close> (\<open>f64_ok\<close>), kept by halving (\<open>f64_half_ok\<close>).

  \<^bold>\<open>Not modelled.\<close> The JSON schema file embedded with \<open>include_str!\<close> is not among the
  sources, so the schema text is a parameter; MIME parsing and transfer decoding
  (\<open>mailparse\<close>) and UUID generation are the library's and enter as service answers;
  logging, AWS client construction, the Lambda entry points and the unit tests (which call
  live services) have no effect on results. Parsing JSON text
  (\<open>serde_json::Value::from_str\<close>, including decimal-to-double rounding) is the
  library's and enters as a service answer, a number as the double \<open>as_f64\<close> returns;
  printing JSON numbers and unicode escapes above U+007F are outside the reader, as
  the handler prints neither. \<open>reqwest::Client::new()\<close> has no modelled effect.
\<close>

section \<open>Properties across the handlers\<close>

text \<open>C20: the two handlers agree through the shared S3 store. After the mail handler has
  stored a message's PDF attachment, the attachment handler, notified of the fresh key in
  the configured bucket and reading through a transport that delivers bodies intact, sends
  the model exactly the bytes of the first PDF part of that message, named by that key.\<close>

theorem mail_to_model_bytes:
  assumes mail: "function_handler_mail sv ev w = (Inr (), w1)"
    and env: "sv_env sv ''AWS_S3_BUCKET'' = Some bucket"
    and transport: "\<forall>bs. sv_transport sv bs = [Inr bs]"
    and get: "sv_s3_fault sv bucket (sv_uuid sv) = None"
    and rec_run: "process_record sv m q p \<lparr>s3_bucket_name = Some bucket, s3_object_key = Some (sv_uuid sv)\<rparr> w1
                   = (res, w2)"
  shows "\<exists>raw parsed a body.
           sv_workmail sv (message_id ev) = Inr raw \<and> sv_parse_mail sv raw = Inr parsed \<and>
           find_attachment parsed = Some a \<and> pm_body_raw a = Inr body \<and>
           Converse m \<lparr>role = User, content = [Text p, Document \<lparr>doc_format = Pdf, doc_name = sv_uuid sv,
                                                   doc_source = Some (Bytes body)\<rparr>]\<rparr> \<in> set (w_calls w2)"
proof -
  from mail transport obtain raw parsed a body where
      raw: "sv_workmail sv (message_id ev) = Inr raw" and parsed: "sv_parse_mail sv raw = Inr parsed"
      and a: "find_attachment parsed = Some a" and body: "pm_body_raw a = Inr body"
      and put: "sv_put_fault sv bucket (sv_uuid sv) = None"
      and w1: "w1 = (log_call (PutObject bucket (sv_uuid sv) ''application/pdf'')
                      (log_call (GetRawMessageContent (message_id ev)) w))
                   \<lparr>w_s3 := (w_s3 w)((bucket, sv_uuid sv) \<mapsto>
                       \<lparr>obj_body = body, obj_content_type = Some ''application/pdf''\<rparr>)\<rparr>"
    by (auto simp: function_handler_mail_apply [OF env] parse_mail_def get_body_raw_def s3_put_object_def
        Let_def split: sum.splits option.splits)
  have fetched: "fst (fetch_document sv bucket (sv_uuid sv) w1) = Inr body"
    using get transport w1 by (simp add: fetch_document_apply)
  from rec_run fetched have "Converse m \<lparr>role = User, content = [Text p, Document \<lparr>doc_format = Pdf,
      doc_name = sv_uuid sv, doc_source = Some (Bytes body)\<rparr>]\<rparr> \<in> set (w_calls w2)"
    by (auto simp: process_record_located sqs_send_message_def Let_def split: sum.splits option.splits)
  with raw parsed a body show ?thesis by blast
qed

theorem mail_to_model_bytes_witness:
  "\<exists>raw parsed a body.
     sv_workmail (demo_mail_services demo_mail) ''msg-1'' = Inr raw \<and>
     sv_parse_mail (demo_mail_services demo_mail) raw = Inr parsed \<and>
     find_attachment parsed = Some a \<and> pm_body_raw a = Inr body \<and>
     Converse ''m'' \<lparr>role = User, content = [Text ''P'', Document \<lparr>doc_format = Pdf, doc_name = ''0190a1b2-uuid'',
                                             doc_source = Some (Bytes body)\<rparr>]\<rparr>
       \<in> set [GetRawMessageContent ''msg-1'', PutObject ''bills'' ''0190a1b2-uuid'' ''application/pdf'',
              GetObject ''bills'' ''0190a1b2-uuid'',
              Converse ''m'' \<lparr>role = User, content = [Text ''P'', Document \<lparr>doc_format = Pdf,
                 doc_name = ''0190a1b2-uuid'', doc_source = Some (Bytes [0x25, 0x50])\<rparr>]\<rparr>]"
proof -
  let ?w1 = "empty_world\<lparr>w_s3 := (w_s3 empty_world)((''bills'', ''0190a1b2-uuid'') \<mapsto>
                 \<lparr>obj_body = [0x25, 0x50], obj_content_type = Some ''application/pdf''\<rparr>),
               w_calls := [GetRawMessageContent ''msg-1'', PutObject ''bills'' ''0190a1b2-uuid'' ''application/pdf'']\<rparr>"
  have mail: "function_handler_mail (demo_mail_services demo_mail) demo_mail_event empty_world = (Inr (), ?w1)"
    by (simp add: function_handler_mail_def env_expect_def workmail_get_raw_message_content_def
        parse_mail_def find_attachment_def is_pdf_part_def get_body_raw_def s3_put_object_def
        act_simps log_call_def Let_def demo_mail_defs str_contains_eval)
  have rec_run: "process_record (demo_mail_services demo_mail) ''m'' ''q'' ''P''
      \<lparr>s3_bucket_name = Some ''bills'', s3_object_key = Some (sv_uuid (demo_mail_services demo_mail))\<rparr> ?w1
    = (Inl (ConverseError ''unused''), ?w1\<lparr>w_calls := w_calls ?w1 @ [GetObject ''bills'' ''0190a1b2-uuid'',
              Converse ''m'' \<lparr>role = User, content = [Text ''P'', Document \<lparr>doc_format = Pdf,
                 doc_name = ''0190a1b2-uuid'', doc_source = Some (Bytes [0x25, 0x50])\<rparr>]\<rparr>]\<rparr>)"
    by (simp add: process_record_def fetch_document_apply bedrock_converse_def act_simps
        log_call_def Let_def demo_mail_defs)
  have env: "sv_env (demo_mail_services demo_mail) ''AWS_S3_BUCKET'' = Some ''bills''"
    and transport: "\<forall>bs. sv_transport (demo_mail_services demo_mail) bs = [Inr bs]"
    and get: "sv_s3_fault (demo_mail_services demo_mail) ''bills'' (sv_uuid (demo_mail_services demo_mail)) = None"
    by (simp_all add: demo_mail_services_def)
  from mail_to_model_bytes [OF mail env transport get rec_run] show ?thesis
    by (simp add: demo_mail_defs)
qed

end
